theory Spec2Isabelle
  imports Main "HOL-Library.AList"
begin

section \<open>Go's time package, as far as the plugin uses it\<close>

text \<open>
  The plugin (\<^verbatim>\<open>src/eredes/eredes.go\<close>) calls \<^verbatim>\<open>time.Now\<close>, \<^verbatim>\<open>Time.Add\<close>, \<^verbatim>\<open>Time.Year\<close>,
  \<^verbatim>\<open>Time.Month\<close>, \<^verbatim>\<open>Time.Day\<close>, \<^verbatim>\<open>Time.Location\<close>, \<^verbatim>\<open>time.Date\<close> and \<^verbatim>\<open>Time.Format\<close>. These
  belong to Go's standard library, not to the repository, so they are modelled here after the
  library's documented behaviour and its algorithms.

  A \<^verbatim>\<open>time.Duration\<close> is an int64 count of nanoseconds. It is an \<open>int\<close> here: the only
  negations the plugin performs are of \<open>24h\<close> and of a history interval that is at least
  \<open>24h\<close>, so no int64 wrap-around can occur in them.

  A \<^verbatim>\<open>time.Time\<close> is an instant (seconds since the Unix epoch and nanoseconds within the
  second) together with a location. \<^verbatim>\<open>time.Now\<close> returns a time in the location \<^verbatim>\<open>Local\<close>,
  which may have daylight-saving transitions, so a location is modelled by what the library
  asks of it: \<^verbatim>\<open>Location.lookup(sec)\<close>, which for an instant gives the offset in seconds east
  of UTC in effect at that instant and the interval \<open>[start, end)\<close> of instants during
  which that offset stays in effect.
\<close>

type_synonym Duration = int

definition Hour :: Duration where
  "Hour = 3600 * 1000000000"

type_synonym Location = "int \<Rightarrow> int \<times> int \<times> int"

text \<open>
  The library's bounds \<^verbatim>\<open>alpha\<close> and \<^verbatim>\<open>omega\<close> for an offset that is in effect for ever,
  \<^verbatim>\<open>time.FixedZone\<close> (a location with one offset) and \<^verbatim>\<open>time.UTC\<close>.
\<close>

definition alpha :: int where
  "alpha = - (2 ^ 63)"

definition omega :: int where
  "omega = 2 ^ 63 - 1"

definition FixedZone :: "int \<Rightarrow> Location" where
  "FixedZone offset = (\<lambda>sec. (offset, alpha, omega))"

definition UTC :: Location where
  "UTC = FixedZone 0"

record Time =
  unixSec :: int
  nsec :: int
  loc :: Location

text \<open>The offset in effect at the instant of \<open>t\<close> in the location of \<open>t\<close>.\<close>

definition zoneOffset :: "Time \<Rightarrow> int" where
  "zoneOffset t = fst (loc t (unixSec t))"

text \<open>Go's integer \<^verbatim>\<open>/\<close> and \<^verbatim>\<open>%\<close> truncate towards zero (the divisor is positive here).\<close>

definition quot :: "int \<Rightarrow> int \<Rightarrow> int" where
  "quot a b = (if a < 0 then - ((- a) div b) else a div b)"

definition rem :: "int \<Rightarrow> int \<Rightarrow> int" where
  "rem a b = a - b * quot a b"

text \<open>
  \<^verbatim>\<open>func (t Time) Add(d Duration) Time\<close>: \<^verbatim>\<open>dsec := d / 1e9; nsec := t.nsec() + d % 1e9\<close>, then one
  carry or borrow of a second.
\<close>

definition Add :: "Time \<Rightarrow> Duration \<Rightarrow> Time" where
  "Add t d =
     (let dsec = quot d 1000000000;
          ns = nsec t + rem d 1000000000
      in if ns \<ge> 1000000000
         then t\<lparr>unixSec := unixSec t + (dsec + 1), nsec := ns - 1000000000\<rparr>
         else if ns < 0
         then t\<lparr>unixSec := unixSec t + (dsec - 1), nsec := ns + 1000000000\<rparr>
         else t\<lparr>unixSec := unixSec t + dsec, nsec := ns\<rparr>)"

definition isLeap :: "int \<Rightarrow> bool" where
  "isLeap year = (year mod 4 = 0 \<and> (year mod 100 \<noteq> 0 \<or> year mod 400 = 0))"

text \<open>\<^verbatim>\<open>daysBefore[m]\<close>: the days of a non-leap year before month \<open>m + 1\<close> starts.\<close>

definition daysBefore :: "int \<Rightarrow> int" where
  "daysBefore m = [0, 31, 59, 90, 120, 151, 181, 212, 243, 273, 304, 334, 365] ! nat m"

text \<open>
  Go counts days from 1 January of an ``absolute zero year'' that is congruent to 1 modulo
  400, in unsigned arithmetic. Here days are counted from 1 January of year 1, with the
  flooring \<open>div\<close> of \<open>int\<close>: the two counts differ by a whole number of 400-year cycles, so
  every year, month and day computed below is the one Go computes. 1 January 1970 is day
  719162 of this count.
\<close>

definition absSeconds :: "Time \<Rightarrow> int" where
  "absSeconds t = unixSec t + zoneOffset t + 719162 * 86400"

definition absDays :: "Time \<Rightarrow> int" where
  "absDays t = absSeconds t div 86400"

definition absClock :: "Time \<Rightarrow> int" where
  "absClock t = absSeconds t mod 86400"

text \<open>
  The first half of \<^verbatim>\<open>absDate\<close>: the year and the day within the year, by cutting off
  400-year, 100-year, 4-year and 1-year cycles (\<^verbatim>\<open>n -= n >> 2\<close> is \<open>n - n div 4\<close>).
\<close>

definition yearDay :: "int \<Rightarrow> int \<times> int" where
  "yearDay d =
     (let n400 = d div 146097;
          d1 = d - 146097 * n400;
          n100 = d1 div 36524;
          n100' = n100 - n100 div 4;
          d2 = d1 - 36524 * n100';
          n4 = d2 div 1461;
          d3 = d2 - 1461 * n4;
          n1 = d3 div 365;
          n1' = n1 - n1 div 4;
          yday = d3 - 365 * n1'
      in (400 * n400 + 100 * n100' + 4 * n4 + n1' + 1, yday))"

text \<open>
  The second half of \<^verbatim>\<open>absDate\<close>: month (1 to 12) and day of the month from the day of the
  year, estimating the month as \<open>day div 31\<close> and correcting it by the table.
\<close>

definition monthDay :: "int \<Rightarrow> int \<Rightarrow> int \<times> int" where
  "monthDay year yday =
     (if isLeap year \<and> yday = 59 then (2, 29)
      else
        let day = (if isLeap year \<and> yday > 59 then yday - 1 else yday);
            month = day div 31;
            end = daysBefore (month + 1)
        in if day \<ge> end then (month + 2, day - end + 1)
           else (month + 1, day - daysBefore month + 1))"

text \<open>
  The table lookup of \<open>monthDay\<close> on its own, for a day of the year from which a leap day
  has been taken out; the proofs below work on it.
\<close>

definition monthDayCore :: "int \<Rightarrow> int \<times> int" where
  "monthDayCore day =
     (let month = day div 31;
          end = daysBefore (month + 1)
      in if day \<ge> end then (month + 2, day - end + 1)
         else (month + 1, day - daysBefore month + 1))"

definition date :: "Time \<Rightarrow> int \<times> int \<times> int" where
  "date t = (let (year, yday) = yearDay (absDays t) in (year, monthDay year yday))"

definition Year :: "Time \<Rightarrow> int" where
  "Year t = fst (date t)"

definition Month :: "Time \<Rightarrow> int" where
  "Month t = fst (snd (date t))"

definition Day :: "Time \<Rightarrow> int" where
  "Day t = snd (snd (date t))"

definition daysSinceEpoch :: "int \<Rightarrow> int" where
  "daysSinceEpoch year =
     (let y = year - 1;
          n400 = y div 400;
          y1 = y - 400 * n400;
          n100 = y1 div 100;
          y2 = y1 - 100 * n100;
          n4 = y2 div 4;
          y3 = y2 - 4 * n4
      in 146097 * n400 + 36524 * n100 + 1461 * n4 + 365 * y3)"

text \<open>
  The zone lookup at the end of \<^verbatim>\<open>time.Date\<close>. \<open>unix\<close> is the wanted wall-clock reading taken
  as if it were UTC. The offset in effect at \<open>unix\<close> is tried first; when the instant it
  leads to lies outside the interval of that offset, the offset of the neighbouring interval
  is taken (the library of the plugin's time, Go 1.15; later versions look the instant up
  again, which differs only at a transition).
\<close>

definition dateZoneOffset :: "Location \<Rightarrow> int \<Rightarrow> int" where
  "dateZoneOffset l unix =
     (let (offset, start, end) = l unix
      in if offset \<noteq> 0 then
           (let utc = unix - offset
            in if utc < start then fst (l (start - 1))
               else if utc \<ge> end then fst (l end)
               else offset)
         else offset)"

text \<open>
  \<^verbatim>\<open>time.Date(year, month, day, hour, min, sec, nsec, loc)\<close>: out-of-range fields are
  normalised (Go's \<^verbatim>\<open>norm\<close> is flooring division), then the days are counted and the zone
  offset is subtracted.
\<close>

definition Date ::
  "int \<Rightarrow> int \<Rightarrow> int \<Rightarrow> int \<Rightarrow> int \<Rightarrow> int \<Rightarrow> int \<Rightarrow> Location \<Rightarrow> Time" where
  "Date year month day hour minute second nanos l =
     (let m = month - 1;
          year = year + m div 12;
          m = m mod 12;
          second = second + nanos div 1000000000;
          nanos = nanos mod 1000000000;
          minute = minute + second div 60;
          second = second mod 60;
          hour = hour + minute div 60;
          minute = minute mod 60;
          day = day + hour div 24;
          hour = hour mod 24;
          d = daysSinceEpoch year + daysBefore m
              + (if isLeap year \<and> m \<ge> 2 then 1 else 0) + (day - 1);
          abs = d * 86400 + hour * 3600 + minute * 60 + second;
          unix = abs - 719162 * 86400
      in \<lparr>unixSec = unix - dateZoneOffset l unix, nsec = nanos, loc = l\<rparr>)"

text \<open>The decimal digits of a number, as the loop of \<^verbatim>\<open>appendInt\<close> assembles them.\<close>

fun digits :: "nat \<Rightarrow> string" where
  "digits u = (if u \<ge> 10 then digits (u div 10) @ [char_of (48 + u mod 10)]
               else [char_of (48 + u)])"

declare digits.simps [simp del]

text \<open>\<^verbatim>\<open>appendInt(b, x, width)\<close>: a sign for a negative number, then the digits, zero-padded.\<close>

definition appendInt :: "int \<Rightarrow> nat \<Rightarrow> string" where
  "appendInt x width =
     (let ds = digits (nat \<bar>x\<bar>)
      in (if x < 0 then ''-'' else '''') @ replicate (width - length ds) (CHR ''0'') @ ds)"

text \<open>\<^verbatim>\<open>t.Format("2006-01-02 15:04:05")\<close>, the only layout the plugin uses.\<close>

definition Format :: "Time \<Rightarrow> string" where
  "Format t =
     (let s = absClock t
      in appendInt (Year t) 4 @ ''-'' @ appendInt (Month t) 2 @ ''-'' @ appendInt (Day t) 2
         @ '' '' @ appendInt (s div 3600) 2 @ '':'' @ appendInt (s mod 3600 div 60) 2
         @ '':'' @ appendInt (s mod 60) 2)"

section \<open>The plugin's data\<close>

text \<open>
  Errors are values. \<open>LibError\<close> stands for an error that a library call hands back (TLS
  configuration, URL parsing, the HTTP transport, reading the response body, the injected
  parser); the other constructors are the three \<^verbatim>\<open>fmt.Errorf\<close> calls of the plugin, holding
  the arguments of their format strings.
\<close>

datatype error =
    LibError string
  | StatusError int string "int list"
  | SignInError error
  | GatherError error

text \<open>
  \<^verbatim>\<open>type EREDES struct\<close>, the configuration. \<open>Headers\<close> is a Go map; it is listed here in the
  order in which \<^verbatim>\<open>range\<close> visits it. The embedded \<^verbatim>\<open>tls.ClientConfig\<close>, the \<^verbatim>\<open>client\<close> and the
  \<^verbatim>\<open>parser\<close> are collaborators from outside the repository and live in \<open>Env\<close> below.
\<close>

record EREDES =
  Headers :: "(string \<times> string) list"
  SignInURL :: string
  UsageURL :: string
  Username :: string
  Password :: string
  Cpe :: string
  SuccessStatusCodes :: "int list"
  Timeout :: Duration
  HistoryInterval :: Duration
  StartDate :: string
  RunTestsOnly :: bool

definition eredesSignIn :: string where
  "eredesSignIn = ''https://online.e-redes.pt/listeners/api.php/ms/auth/auth/signin''"

definition eredesUsage :: string where
  "eredesUsage = ''https://online.e-redes.pt/listeners/api.php/ms/reading/data-usage/sysgrid/get''"

text \<open>An outgoing \<^verbatim>\<open>http.Request\<close> and the \<^verbatim>\<open>http.Response\<close> to it.\<close>

record Request =
  reqMethod :: string
  reqURL :: string
  reqHost :: string
  reqHeader :: "(string \<times> string list) list"
  reqBody :: string

text \<open>\<open>Body\<close> is what \<^verbatim>\<open>ioutil.ReadAll(resp.Body)\<close> returns: the bytes, or a read error.\<close>

record Response =
  StatusCode :: int
  Body :: "error + string"

text \<open>
  A \<^verbatim>\<open>telegraf.Metric\<close> as the plugin reads it: name, fields, tags and time. The field
  values are of Go's \<^verbatim>\<open>interface{}\<close>; their type is the parameter \<open>'v\<close>.
\<close>

record 'v Metric =
  Name :: string
  Fields :: "(string \<times> 'v) list"
  Tags :: "(string \<times> string) list"
  MetricTime :: Time

text \<open>
  The \<^verbatim>\<open>telegraf.Accumulator\<close>: what \<^verbatim>\<open>AddFields\<close> and \<^verbatim>\<open>AddError\<close> have received so far, in
  order.
\<close>

record 'v Accumulator =
  added :: "(string \<times> (string \<times> 'v) list \<times> (string \<times> string) list \<times> Time) list"
  errors :: "error list"

definition AddFields :: "'v Accumulator \<Rightarrow> 'v Metric \<Rightarrow> 'v Accumulator" where
  "AddFields acc metric =
     acc\<lparr>added := added acc @ [(Name metric, Fields metric, Tags metric, MetricTime metric)]\<rparr>"

definition AddError :: "'v Accumulator \<Rightarrow> error \<Rightarrow> 'v Accumulator" where
  "AddError acc err = acc\<lparr>errors := errors acc @ [err]\<rparr>"

text \<open>
  The collaborators the plugin calls but does not define:
  \<^item> \<open>TLSConfig\<close>: the result of \<^verbatim>\<open>eredes.ClientConfig.TLSConfig()\<close>, an error or none;
  \<^item> \<open>parseURL\<close>: the URL parsing inside \<^verbatim>\<open>http.NewRequest\<close>, an error or the URL's host;
  \<^item> \<open>canonicalMIMEHeaderKey\<close>: the key normalisation of \<^verbatim>\<open>http.Header\<close>;
  \<^item> \<open>clientDo\<close>: \<^verbatim>\<open>eredes.client.Do\<close>, the network. Its answer may depend on the requests
    sent before;
  \<^item> \<open>StatusText\<close>: \<^verbatim>\<open>http.StatusText\<close>;
  \<^item> \<open>gjsonGet\<close>: \<^verbatim>\<open>gjson.Get(json, path)\<close> followed by \<^verbatim>\<open>Result.String()\<close>: \<open>None\<close> when the
    path does not exist in the document, else the string form of the value found;
  \<^item> \<open>parserParse\<close>: \<^verbatim>\<open>eredes.parser.Parse\<close>, the parser that Telegraf injects.
\<close>

record 'v Env =
  TLSConfig :: "error option"
  parseURL :: "string \<Rightarrow> error + string"
  canonicalMIMEHeaderKey :: "string \<Rightarrow> string"
  clientDo :: "Request list \<Rightarrow> Request \<Rightarrow> error + Response"
  StatusText :: "int \<Rightarrow> string"
  gjsonGet :: "string \<Rightarrow> string \<Rightarrow> string option"
  parserParse :: "string \<Rightarrow> error + 'v Metric list"

text \<open>\<^verbatim>\<open>Result.String()\<close> of a result that does not exist is the empty string.\<close>

definition ResultString :: "string option \<Rightarrow> string" where
  "ResultString r = (case r of None \<Rightarrow> [] | Some s \<Rightarrow> s)"

section \<open>Strings and headers\<close>

text \<open>
  \<^verbatim>\<open>strings.ToLower\<close> on the ASCII letters. The plugin only compares the result with
  \<^verbatim>\<open>"host"\<close>, and no character outside ASCII lowers to one of the letters h, o, s, t.
\<close>

definition ToLower :: "string \<Rightarrow> string" where
  "ToLower s =
     map (\<lambda>c. let n = (of_char c :: nat) in if 65 \<le> n \<and> n \<le> 90 then char_of (n + 32) else c) s"

text \<open>\<^verbatim>\<open>strings.Trim(s, "\n")\<close>: leading and trailing line feeds removed.\<close>

definition Trim :: "string \<Rightarrow> string" where
  "Trim s = rev (dropWhile (\<lambda>c. c = CHR 0x0A) (rev (dropWhile (\<lambda>c. c = CHR 0x0A) s)))"

definition headerGet :: "(string \<times> string list) list \<Rightarrow> string \<Rightarrow> string list" where
  "headerGet h key = (case map_of h key of None \<Rightarrow> [] | Some vs \<Rightarrow> vs)"

definition HeaderAdd ::
  "'v Env \<Rightarrow> string \<Rightarrow> string \<Rightarrow> (string \<times> string list) list \<Rightarrow> (string \<times> string list) list" where
  "HeaderAdd env k v h =
     (let key = canonicalMIMEHeaderKey env k in AList.update key (headerGet h key @ [v]) h)"

definition HeaderSet ::
  "'v Env \<Rightarrow> string \<Rightarrow> string \<Rightarrow> (string \<times> string list) list \<Rightarrow> (string \<times> string list) list" where
  "HeaderSet env k v h = AList.update (canonicalMIMEHeaderKey env k) [v] h"

text \<open>\<^verbatim>\<open>http.NewRequest(method, url, body)\<close>: fails when the URL does not parse.\<close>

definition NewRequest :: "'v Env \<Rightarrow> string \<Rightarrow> string \<Rightarrow> string \<Rightarrow> error + Request" where
  "NewRequest env method url body =
     (case parseURL env url of
        Inl err \<Rightarrow> Inl err
      | Inr host \<Rightarrow>
          Inr \<lparr>reqMethod = method, reqURL = url, reqHost = host, reqHeader = [], reqBody = body\<rparr>)"

section \<open>The plugin's functions\<close>

text \<open>
  \<^verbatim>\<open>Init\<close> (lines 93 to 111). Building the \<^verbatim>\<open>http.Client\<close> has no outcome of its own in the
  model: the client is \<open>clientDo\<close>.
\<close>

definition Init :: "'v Env \<Rightarrow> EREDES \<Rightarrow> error option \<times> EREDES" where
  "Init env eredes =
     (case TLSConfig env of
        Some err \<Rightarrow> (Some err, eredes)
      | None \<Rightarrow> (None, eredes\<lparr>SuccessStatusCodes := [200]\<rparr>))"

definition makeRequestBodyReader :: "string \<Rightarrow> error + string" where
  "makeRequestBodyReader body = Inr body"

text \<open>The loop of lines 302 to 308, with its \<^verbatim>\<open>break\<close>.\<close>

fun responseHasSuccessCode :: "int \<Rightarrow> int list \<Rightarrow> bool" where
  "responseHasSuccessCode code [] = False"
| "responseHasSuccessCode code (statusCode # rest) =
     (if code = statusCode then True else responseHasSuccessCode code rest)"

text \<open>The loop of lines 280 to 286 over the configured headers.\<close>

fun applyHeaders :: "'v Env \<Rightarrow> (string \<times> string) list \<Rightarrow> Request \<Rightarrow> Request" where
  "applyHeaders env [] request = request"
| "applyHeaders env ((k, v) # rest) request =
     applyHeaders env rest
       (if ToLower k = ''host'' then request\<lparr>reqHost := v\<rparr>
        else request\<lparr>reqHeader := HeaderAdd env k v (reqHeader request)\<rparr>)"

definition userAgent :: string where
  "userAgent = ''Mozilla/5.0 (Macintosh; Intel Mac OS X 10_13_6) AppleWebKit/605.1.15 (KHTML, like Gecko) Version/13.1.2 Safari/605.1.15''"

text \<open>
  \<^verbatim>\<open>makeRequest\<close> (lines 264 to 323). The last argument is the list of requests that have
  gone out so far; the result holds the list afterwards, so that a property such as ``no
  network call was made'' can be stated.
\<close>

definition makeRequest ::
  "'v Env \<Rightarrow> EREDES \<Rightarrow> string \<Rightarrow> string \<Rightarrow> string \<Rightarrow> Request list
     \<Rightarrow> (error + string) \<times> Request list" where
  "makeRequest env eredes url requestBody token sent =
     (case makeRequestBodyReader requestBody of
        Inl err \<Rightarrow> (Inl err, sent)
      | Inr body \<Rightarrow>
          (case NewRequest env ''POST'' url body of
             Inl err \<Rightarrow> (Inl err, sent)
           | Inr request \<Rightarrow>
               (let request = applyHeaders env (Headers eredes) request;
                    request =
                      (if token \<noteq> [] then
                         request\<lparr>reqHeader :=
                           HeaderSet env ''Authorization'' (''Bearer '' @ Trim token)
                             (reqHeader request)\<rparr>
                       else request);
                    request = request\<lparr>reqHeader :=
                      HeaderSet env ''Content-Type'' ''application/json'' (reqHeader request)\<rparr>;
                    request = request\<lparr>reqHeader :=
                      HeaderSet env ''User-Agent'' userAgent (reqHeader request)\<rparr>
                in case clientDo env sent request of
                     Inl err \<Rightarrow> (Inl err, sent @ [request])
                   | Inr resp \<Rightarrow>
                       if \<not> responseHasSuccessCode (StatusCode resp) (SuccessStatusCodes eredes)
                       then (Inl (StatusError (StatusCode resp) (StatusText env (StatusCode resp))
                                    (SuccessStatusCodes eredes)),
                             sent @ [request])
                       else (case Body resp of
                               Inl err \<Rightarrow> (Inl err, sent @ [request])
                             | Inr b \<Rightarrow> (Inr b, sent @ [request])))))"

text \<open>The request body of line 239.\<close>

definition signInRequestBody :: "EREDES \<Rightarrow> string" where
  \<open>signInRequestBody eredes =
     ''{"password": "'' @ Password eredes @ ''", "username": "'' @ Username eredes @ ''"}''\<close>

text \<open>\<^verbatim>\<open>signIn\<close> (lines 227 to 255).\<close>

definition signIn ::
  "'v Env \<Rightarrow> EREDES \<Rightarrow> Request list \<Rightarrow> (error + string) \<times> Request list" where
  "signIn env eredes sent =
     (if RunTestsOnly eredes then (Inr ''TOKEN1234567890'', sent)
      else
        let signInURL = SignInURL eredes;
            signInURL = (if signInURL = [] then eredesSignIn else signInURL)
        in case makeRequest env eredes signInURL (signInRequestBody eredes) [] sent of
             (Inl err, sent') \<Rightarrow> (Inl err, sent')
           | (Inr response, sent') \<Rightarrow>
               (Inr (ResultString (gjsonGet env response ''Body.Result.token'')), sent'))"

text \<open>
  The end of the request window, lines 176 and 177: the instant that \<^verbatim>\<open>endDate\<close> holds before
  it is formatted. Its argument is the clock reading of line 176.
\<close>

definition endDate :: "Time \<Rightarrow> Time" where
  "endDate now =
     (let twentyFourHours = 24 * Hour;
          endDate = Add now (- twentyFourHours)
      in Date (Year endDate) (Month endDate) (Day endDate) 23 59 59 59 (loc endDate))"

text \<open>
  The request window, lines 152 to 178 of \<^verbatim>\<open>gatherUsages\<close>: the pair \<open>(start, end)\<close>. The
  function reads the clock twice, at line 156 (\<open>now1\<close>) and at line 176 (\<open>now2\<close>).
\<close>

definition requestWindow :: "Duration \<Rightarrow> string \<Rightarrow> Time \<Rightarrow> Time \<Rightarrow> string \<times> string" where
  "requestWindow historyInterval configuredStart now1 now2 =
     (let twentyFourHours = 24 * Hour;
          startDate = now1;
          start =
            (if configuredStart = [] then
               (if historyInterval = 0 \<or> historyInterval < twentyFourHours then
                  (let startDate = Add startDate (- twentyFourHours);
                       startDate = Date (Year startDate) (Month startDate) (Day startDate)
                                     23 59 59 0 (loc startDate)
                   in Format startDate)
                else
                  (let startDate = Add (Add startDate (- historyInterval)) (- twentyFourHours);
                       startDate = Date (Year startDate) (Month startDate) (Day startDate)
                                     23 59 59 0 (loc startDate)
                   in Format startDate))
             else configuredStart)
      in (start, Format (endDate now2)))"

text \<open>The request body of line 182.\<close>

definition usagesRequestBody :: "EREDES \<Rightarrow> string \<Rightarrow> string \<Rightarrow> string" where
  \<open>usagesRequestBody eredes start end =
     ''{"cpe": "'' @ Cpe eredes @ ''", "request_type":"3","start_date":"'' @ start
     @ ''","end_date":"'' @ end @ ''","wait":true,"formatted":false}''\<close>

text \<open>
  \<^verbatim>\<open>gatherUsages\<close> (lines 145 to 220). The calls of \<^verbatim>\<open>log.Printf\<close> are left out. The variable
  \<open>usageURL\<close> is computed as in the source, and as in the source the request of line 195 is
  given \<open>eredesUsage\<close>.
\<close>

definition gatherUsages ::
  "'v Env \<Rightarrow> EREDES \<Rightarrow> Time \<Rightarrow> Time \<Rightarrow> 'v Accumulator \<Rightarrow> string \<Rightarrow> Request list
     \<Rightarrow> error option \<times> 'v Accumulator \<times> Request list" where
  "gatherUsages env eredes now1 now2 acc token sent =
     (let (start, end) = requestWindow (HistoryInterval eredes) (StartDate eredes) now1 now2;
          usageURL = UsageURL eredes;
          usageURL = (if usageURL = [] then eredesUsage else usageURL)
      in if \<not> RunTestsOnly eredes then
           (case makeRequest env eredes eredesUsage (usagesRequestBody eredes start end) token sent of
              (Inl err, sent') \<Rightarrow> (Some err, acc, sent')
            | (Inr response, sent') \<Rightarrow>
                (case parserParse env response of
                   Inl err \<Rightarrow> (Some err, acc, sent')
                 | Inr metrics \<Rightarrow>
                     if length metrics > 0 then (None, foldl AddFields acc metrics, sent')
                     else (None, acc, sent')))
         else (None, acc, sent))"

text \<open>\<^verbatim>\<open>Gather\<close> (lines 115 to 131), one collection cycle.\<close>

definition Gather ::
  "'v Env \<Rightarrow> EREDES \<Rightarrow> Time \<Rightarrow> Time \<Rightarrow> 'v Accumulator \<Rightarrow> Request list
     \<Rightarrow> error option \<times> 'v Accumulator \<times> Request list" where
  "Gather env eredes now1 now2 acc sent =
     (case signIn env eredes sent of
        (Inl err, sent1) \<Rightarrow> (None, AddError acc (SignInError err), sent1)
      | (Inr token, sent1) \<Rightarrow>
          if token \<noteq> [] then
            (case gatherUsages env eredes now1 now2 acc token sent1 of
               (Some err, acc', sent2) \<Rightarrow> (None, AddError acc' (GatherError err), sent2)
             | (None, acc', sent2) \<Rightarrow> (None, acc', sent2))
          else (None, acc, sent1))"

section \<open>Example inputs\<close>

text \<open>
  Concrete inputs on which the theorems below are run: a configuration with two accepted
  status codes and an override of the usage URL; collaborators whose network answers the
  first request of a cycle with \<open>signInAnswer\<close> and every later one with \<open>usageAnswer\<close>;
  noon of 10 January 2021 in UTC; an accumulator that has received nothing; two nights in
  Lisbon next to a change of the clocks.
\<close>

definition exampleConfig :: EREDES where
  "exampleConfig =
     \<lparr>Headers = [(''Host'', ''example.org''), (''X-Test'', ''1'')], SignInURL = [],
      UsageURL = ''http://localhost:8080/usage'',
      Username = ''user'', Password = ''secret'', Cpe = ''PT0002000012345678XX'',
      SuccessStatusCodes = [200, 201], Timeout = 120 * 1000000000,
      HistoryInterval = 168 * Hour, StartDate = [], RunTestsOnly = False\<rparr>"

definition exampleEnv ::
  "error + Response \<Rightarrow> error + Response \<Rightarrow> string option \<Rightarrow> error + string Metric list
     \<Rightarrow> string Env" where
  "exampleEnv signInAnswer usageAnswer token parsed =
     \<lparr>TLSConfig = None,
      parseURL = (\<lambda>url. Inr ''online.e-redes.pt''),
      canonicalMIMEHeaderKey = (\<lambda>k. k),
      clientDo = (\<lambda>sent request. case sent of [] \<Rightarrow> signInAnswer | _ \<Rightarrow> usageAnswer),
      StatusText = (\<lambda>code. if code = 201 then ''Created'' else if code = 200 then ''OK'' else []),
      gjsonGet = (\<lambda>json path. if path = ''Body.Result.token'' then token else None),
      parserParse = (\<lambda>b. parsed)\<rparr>"

definition okResponse :: "error + Response" where
  "okResponse = Inr \<lparr>StatusCode = 200, Body = Inr ''response body''\<rparr>"

definition exampleNow :: Time where
  "exampleNow = Date 2021 1 10 12 0 0 0 UTC"

text \<open>
  The location Europe/Lisbon from 25 October 2020 to 27 March 2022: summer time (one hour
  east of UTC) from 28 March 2021 01:00 UTC to 31 October 2021 01:00 UTC, else UTC. In it,
  23:30 of 31 October 2021 (the day that lasts 25 hours), 00:30 of 29 March 2021 (the
  day after the one that lasts 23 hours) and noon of 15 July 2021 (far from both).
\<close>

definition Lisbon :: Location where
  "Lisbon =
     (\<lambda>sec. if sec < 1616893200 then (0, 1603587600, 1616893200)
           else if sec < 1635642000 then (3600, 1616893200, 1635642000)
           else (0, 1635642000, 1648342800))"

definition lisbonAutumnNight :: Time where
  "lisbonAutumnNight = Date 2021 10 31 23 30 0 0 Lisbon"

definition lisbonSpringNight :: Time where
  "lisbonSpringNight = Date 2021 3 29 0 30 0 0 Lisbon"

definition lisbonSummerNoon :: Time where
  "lisbonSummerNoon = Date 2021 7 15 12 0 0 0 Lisbon"

definition emptyAcc :: "string Accumulator" where
  "emptyAcc = \<lparr>added = [], errors = []\<rparr>"

section \<open>The calendar: a date and its day count determine each other\<close>

text \<open>
  \<open>date\<close> turns a count of days into year, month and day; \<open>Date\<close> turns year, month and day
  back into a count of days. The plugin composes the two (lines 166, 169 and 177), so the
  facts about its request window rest on \<open>Date\<close> undoing \<open>date\<close>. The proof writes a day
  count as \<open>146097 q + 36524 a + 1461 b + 365 c + yd\<close> with the ranges that the cycle
  cutting of \<open>yearDay\<close> produces.
\<close>

lemma div_decomp:
  fixes q r k :: int
  assumes "0 \<le> r" "r < k"
  shows "(k * q + r) div k = q"
  using assms by (simp add: div_pos_pos_trivial)

lemma mod_decomp:
  fixes q r k :: int
  assumes "0 \<le> r" "r < k"
  shows "(k * q + r) mod k = r"
  using assms by simp

lemma div_bounds:
  fixes x k :: int
  assumes "0 < k"
  shows "k * (x div k) \<le> x" "x < k * (x div k) + k"
proof -
  have "x = k * (x div k) + x mod k" by simp
  moreover have "0 \<le> x mod k" "x mod k < k" using assms by simp_all
  ultimately show "k * (x div k) \<le> x" "x < k * (x div k) + k" by linarith+
qed

lemma daysSinceEpoch_decomp:
  assumes "0 \<le> a" "a \<le> 3" "0 \<le> b" "b \<le> 24" "0 \<le> c" "c \<le> 3"
  shows "daysSinceEpoch (400 * q + 100 * a + 4 * b + c + 1) = 146097 * q + 36524 * a + 1461 * b + 365 * c"
proof -
  let ?y = "400 * q + 100 * a + 4 * b + c"
  have "(400 * q + (100 * a + 4 * b + c)) div 400 = q"
    by (rule div_decomp) (use assms in linarith)+
  then have q: "?y div 400 = q" by (simp add: add.assoc)
  have "(100 * a + (4 * b + c)) div 100 = a"
    by (rule div_decomp) (use assms in linarith)+
  then have a: "(100 * a + 4 * b + c) div 100 = a" by (simp add: add.assoc)
  have b: "(4 * b + c) div 4 = b"
    by (rule div_decomp) (use assms in linarith)+
  have y1: "?y - 400 * q = 100 * a + 4 * b + c" by simp
  have y2: "100 * a + 4 * b + c - 100 * a = 4 * b + c" by simp
  have y3: "4 * b + c - 4 * b = c" by simp
  show ?thesis
    unfolding daysSinceEpoch_def Let_def
    by (simp add: q a b y1 y2 y3)
qed

lemma isLeap_decomp:
  assumes "0 \<le> a" "a \<le> 3" "0 \<le> b" "b \<le> 24" "0 \<le> c" "c \<le> 3"
  shows "isLeap (400 * q + 100 * a + 4 * b + c + 1) = (c = 3 \<and> (b \<noteq> 24 \<or> a = 3))"
proof -
  let ?y = "400 * q + 100 * a + 4 * b + c + 1"
  have e4: "?y = 4 * (100 * q + 25 * a + b) + (c + 1)" by simp
  have e100: "?y = 100 * (4 * q + a) + (4 * b + c + 1)" by simp
  have e400: "?y = 400 * q + (100 * a + 4 * b + c + 1)" by simp
  have m4: "?y mod 4 = (c + 1) mod 4"
    using mod_mult_self4[of 4 "100 * q + 25 * a + b" "c + 1"] by (simp only: e4)
  have m100: "?y mod 100 = (4 * b + c + 1) mod 100"
    using mod_mult_self4[of 100 "4 * q + a" "4 * b + c + 1"] by (simp only: e100)
  have m400: "?y mod 400 = (100 * a + 4 * b + c + 1) mod 400"
    using mod_mult_self4[of 400 q "100 * a + 4 * b + c + 1"] by (simp only: e400)
  have r4: "((c + 1) mod 4 = 0) = (c = 3)"
  proof (cases "c = 3")
    case True then show ?thesis by simp
  next
    case False
    then have "0 \<le> c + 1" "c + 1 < 4" using assms by linarith+
    then have "(c + 1) mod 4 = c + 1" by simp
    then show ?thesis using False assms by simp
  qed
  have r100: "((4 * b + c + 1) mod 100 = 0) = (b = 24 \<and> c = 3)"
  proof (cases "b = 24 \<and> c = 3")
    case True then show ?thesis by simp
  next
    case False
    then have "0 \<le> 4 * b + c + 1" "4 * b + c + 1 < 100" using assms by linarith+
    then have "(4 * b + c + 1) mod 100 = 4 * b + c + 1" by simp
    then show ?thesis using False assms by simp
  qed
  have r400: "((100 * a + 4 * b + c + 1) mod 400 = 0) = (a = 3 \<and> b = 24 \<and> c = 3)"
  proof (cases "a = 3 \<and> b = 24 \<and> c = 3")
    case True then show ?thesis by simp
  next
    case False
    then have "0 \<le> 100 * a + 4 * b + c + 1" "100 * a + 4 * b + c + 1 < 400" using assms by linarith+
    then have "(100 * a + 4 * b + c + 1) mod 400 = 100 * a + 4 * b + c + 1" by simp
    then show ?thesis using False assms by simp
  qed
  show ?thesis unfolding isLeap_def m4 m100 m400 r4 r100 r400 by auto
qed

lemma yearDay_decomp:
  obtains q a b c yd where
    "yearDay d = (400 * q + 100 * a + 4 * b + c + 1, yd)"
    "d = 146097 * q + 36524 * a + 1461 * b + 365 * c + yd"
    "0 \<le> a" "a \<le> 3" "0 \<le> b" "b \<le> 24" "0 \<le> c" "c \<le> 3"
    "0 \<le> yd" "yd \<le> 364 \<or> (yd = 365 \<and> c = 3 \<and> (b \<noteq> 24 \<or> a = 3))"
proof -
  define n400 where "n400 = d div 146097"
  define d1 where "d1 = d - 146097 * n400"
  define n100 where "n100 = d1 div 36524"
  define m100 where "m100 = n100 div 4"
  define a where "a = n100 - m100"
  define d2 where "d2 = d1 - 36524 * a"
  define n4 where "n4 = d2 div 1461"
  define d3 where "d3 = d2 - 1461 * n4"
  define n1 where "n1 = d3 div 365"
  define m1 where "m1 = n1 div 4"
  define c where "c = n1 - m1"
  define yd where "yd = d3 - 365 * c"
  have yD: "yearDay d = (400 * n400 + 100 * a + 4 * n4 + c + 1, yd)"
    unfolding yearDay_def Let_def n400_def d1_def n100_def m100_def a_def d2_def n4_def
      d3_def n1_def m1_def c_def yd_def by simp
  have b1: "146097 * n400 \<le> d" "d < 146097 * n400 + 146097"
    unfolding n400_def by (rule div_bounds, simp)+
  have b2: "36524 * n100 \<le> d1" "d1 < 36524 * n100 + 36524"
    unfolding n100_def by (rule div_bounds, simp)+
  have b3: "4 * m100 \<le> n100" "n100 < 4 * m100 + 4"
    unfolding m100_def by (rule div_bounds, simp)+
  have b4: "1461 * n4 \<le> d2" "d2 < 1461 * n4 + 1461"
    unfolding n4_def by (rule div_bounds, simp)+
  have b5: "365 * n1 \<le> d3" "d3 < 365 * n1 + 365"
    unfolding n1_def by (rule div_bounds, simp)+
  have b6: "4 * m1 \<le> n1" "n1 < 4 * m1 + 4"
    unfolding m1_def by (rule div_bounds, simp)+
  have d1r: "0 \<le> d1" "d1 \<le> 146096" using b1 unfolding d1_def by linarith+
  have n100r: "0 \<le> n100" "n100 \<le> 4" using b2 d1r by linarith+
  have m100r: "0 \<le> m100" "m100 \<le> 1" using b3 n100r by linarith+
  have m100c: "m100 = 0 \<and> n100 \<le> 3 \<or> m100 = 1 \<and> n100 = 4" using b3 n100r m100r by linarith
  have ar: "0 \<le> a" "a \<le> 3" using m100c n100r unfolding a_def by linarith+
  have d2r: "0 \<le> d2 \<and> d2 \<le> 36524"
    using m100c
  proof (elim disjE conjE)
    assume "m100 = 0" "n100 \<le> 3"
    then have "d2 = d1 - 36524 * n100" unfolding d2_def a_def by simp
    then show ?thesis using b2 by linarith
  next
    assume "m100 = 1" "n100 = 4"
    then have "d2 = d1 - 109572" unfolding d2_def a_def by simp
    then show ?thesis using b2 d1r \<open>n100 = 4\<close> by linarith
  qed
  have d2a: "d2 = 36524 \<Longrightarrow> a = 3"
    using m100c
  proof (elim disjE conjE)
    assume "d2 = 36524" "m100 = 0" "n100 \<le> 3"
    then have "d1 - 36524 * n100 = 36524" unfolding d2_def a_def by simp
    then show "a = 3" using b2 by linarith
  next
    assume "m100 = 1" "n100 = 4"
    then show "a = 3" unfolding a_def by linarith
  qed
  have n4r: "0 \<le> n4" "n4 \<le> 24" using b4 d2r by linarith+
  have d3r: "0 \<le> d3" "d3 \<le> 1460" using b4 unfolding d3_def by linarith+
  have n1r: "0 \<le> n1" "n1 \<le> 4" using b5 d3r by linarith+
  have m1r: "0 \<le> m1" "m1 \<le> 1" using b6 n1r by linarith+
  have m1c: "m1 = 0 \<and> n1 \<le> 3 \<or> m1 = 1 \<and> n1 = 4" using b6 n1r m1r by linarith
  have cr: "0 \<le> c" "c \<le> 3" using m1c n1r unfolding c_def by linarith+
  have ydr: "0 \<le> yd \<and> yd \<le> 365"
    using m1c
  proof (elim disjE conjE)
    assume "m1 = 0" "n1 \<le> 3"
    then have "yd = d3 - 365 * n1" unfolding yd_def c_def by simp
    then show ?thesis using b5 by linarith
  next
    assume "m1 = 1" "n1 = 4"
    then have "yd = d3 - 1095" unfolding yd_def c_def by simp
    then show ?thesis using b5 d3r \<open>n1 = 4\<close> by linarith
  qed
  have ydc: "c = 3 \<and> d3 = 1460" if "yd = 365"
    using m1c
  proof (elim disjE conjE)
    assume "m1 = 0" "n1 \<le> 3"
    then have "yd = d3 - 365 * n1" unfolding yd_def c_def by simp
    then have "yd < 365" using b5 by linarith
    then show ?thesis using that by linarith
  next
    assume "m1 = 1" "n1 = 4"
    then have "c = 3" unfolding c_def by linarith
    moreover have "d3 = 1460" using that \<open>c = 3\<close> unfolding yd_def by simp
    ultimately show ?thesis by simp
  qed
  have last: "a = 3" if "yd = 365" "n4 = 24"
  proof -
    have "d3 = 1460" using ydc[OF that(1)] by simp
    then have "d2 = 36524" using that(2) unfolding d3_def by linarith
    then show ?thesis by (rule d2a)
  qed
  have sum: "d = 146097 * n400 + 36524 * a + 1461 * n4 + 365 * c + yd"
    unfolding yd_def d3_def d2_def d1_def by simp
  have fin: "yd \<le> 364 \<or> (yd = 365 \<and> c = 3 \<and> (n4 \<noteq> 24 \<or> a = 3))"
  proof (cases "yd = 365")
    case True
    then show ?thesis using ydc[OF True] last[OF True] by blast
  next
    case False
    then show ?thesis using ydr by linarith
  qed
  show thesis
    using that[OF yD sum ar n4r cr _ fin] ydr by blast
qed

lemma daysBefore_simps:
  "daysBefore 0 = 0" "daysBefore 1 = 31" "daysBefore 2 = 59" "daysBefore 3 = 90"
  "daysBefore 4 = 120" "daysBefore 5 = 151" "daysBefore 6 = 181" "daysBefore 7 = 212"
  "daysBefore 8 = 243" "daysBefore 9 = 273" "daysBefore 10 = 304" "daysBefore 11 = 334"
  "daysBefore 12 = 365"
  by (simp_all add: daysBefore_def)

lemma monthDayCore_at:
  assumes "31 * k \<le> day" "day < 31 * k + 31"
  shows "monthDayCore day =
     (if day \<ge> daysBefore (k + 1) then (k + 2, day - daysBefore (k + 1) + 1)
      else (k + 1, day - daysBefore k + 1))"
proof -
  have "day = 31 * k + (day - 31 * k)" by simp
  moreover have "0 \<le> day - 31 * k" "day - 31 * k < 31" using assms by linarith+
  ultimately have "day div 31 = k" using div_decomp[of "day - 31 * k" 31 k] by simp
  then show ?thesis unfolding monthDayCore_def Let_def by simp
qed

lemma monthDayCore_inv:
  assumes "0 \<le> day" "day \<le> 364" "monthDayCore day = (m, dd)"
  shows "1 \<le> m \<and> m \<le> 12 \<and> 1 \<le> dd \<and> daysBefore (m - 1) + (dd - 1) = day
         \<and> (3 \<le> m \<longleftrightarrow> 59 \<le> day)"
proof -
  define k where "k = day div 31"
  have kb: "31 * k \<le> day" "day < 31 * k + 31"
    unfolding k_def by (rule div_bounds, simp)+
  then have "0 \<le> k" "k \<le> 11" using assms by linarith+
  then consider "k = 0" | "k = 1" | "k = 2" | "k = 3" | "k = 4" | "k = 5" | "k = 6" | "k = 7"
    | "k = 8" | "k = 9" | "k = 10" | "k = 11" by atomize_elim presburger
  then show ?thesis
  proof cases
    case 1 with kb assms(3) monthDayCore_at[OF kb] assms(1,2) show ?thesis
      by (auto simp: daysBefore_simps split: if_splits)
  next
    case 2 with kb assms(3) monthDayCore_at[OF kb] assms(1,2) show ?thesis
      by (auto simp: daysBefore_simps split: if_splits)
  next
    case 3 with kb assms(3) monthDayCore_at[OF kb] assms(1,2) show ?thesis
      by (auto simp: daysBefore_simps split: if_splits)
  next
    case 4 with kb assms(3) monthDayCore_at[OF kb] assms(1,2) show ?thesis
      by (auto simp: daysBefore_simps split: if_splits)
  next
    case 5 with kb assms(3) monthDayCore_at[OF kb] assms(1,2) show ?thesis
      by (auto simp: daysBefore_simps split: if_splits)
  next
    case 6 with kb assms(3) monthDayCore_at[OF kb] assms(1,2) show ?thesis
      by (auto simp: daysBefore_simps split: if_splits)
  next
    case 7 with kb assms(3) monthDayCore_at[OF kb] assms(1,2) show ?thesis
      by (auto simp: daysBefore_simps split: if_splits)
  next
    case 8 with kb assms(3) monthDayCore_at[OF kb] assms(1,2) show ?thesis
      by (auto simp: daysBefore_simps split: if_splits)
  next
    case 9 with kb assms(3) monthDayCore_at[OF kb] assms(1,2) show ?thesis
      by (auto simp: daysBefore_simps split: if_splits)
  next
    case 10 with kb assms(3) monthDayCore_at[OF kb] assms(1,2) show ?thesis
      by (auto simp: daysBefore_simps split: if_splits)
  next
    case 11 with kb assms(3) monthDayCore_at[OF kb] assms(1,2) show ?thesis
      by (auto simp: daysBefore_simps split: if_splits)
  next
    case 12 with kb assms(3) monthDayCore_at[OF kb] assms(1,2) show ?thesis
      by (auto simp: daysBefore_simps split: if_splits)
  qed
qed

lemma monthDay_core: "monthDay year yday =
   (if isLeap year \<and> yday = 59 then (2, 29)
    else monthDayCore (if isLeap year \<and> yday > 59 then yday - 1 else yday))"
  unfolding monthDay_def monthDayCore_def Let_def by simp

lemma monthDay_inv:
  assumes "0 \<le> yd" "yd \<le> 364 \<or> (yd = 365 \<and> isLeap y)" "monthDay y yd = (m, dd)"
  shows "1 \<le> m \<and> m \<le> 12 \<and> 1 \<le> dd
         \<and> daysBefore (m - 1) + (if isLeap y \<and> 2 \<le> m - 1 then 1 else 0) + (dd - 1) = yd"
proof (cases "isLeap y")
  case False
  then have c: "monthDayCore yd = (m, dd)" using assms(3) by (simp add: monthDay_core)
  have "yd \<le> 364" using assms(2) False by blast
  from monthDayCore_inv[OF assms(1) this c] False show ?thesis by simp
next
  case True
  consider "yd = 59" | "yd < 59" | "59 < yd" by linarith
  then show ?thesis
  proof cases
    case 1
    then have "m = 2" "dd = 29" using assms(3) True by (simp_all add: monthDay_core)
    then show ?thesis using 1 by (simp add: daysBefore_simps)
  next
    case 2
    then have c: "monthDayCore yd = (m, dd)" using assms(3) True by (simp add: monthDay_core)
    have "yd \<le> 364" using 2 by linarith
    from monthDayCore_inv[OF assms(1) this c] 2 show ?thesis by auto
  next
    case 3
    then have c: "monthDayCore (yd - 1) = (m, dd)" using assms(3) True by (simp add: monthDay_core)
    have "0 \<le> yd - 1" "yd - 1 \<le> 364" using 3 assms(2) by linarith+
    from monthDayCore_inv[OF this c] 3 True show ?thesis by auto
  qed
qed

lemma date_inverse:
  assumes "date t = (y, m, dd)"
  shows "1 \<le> m \<and> m \<le> 12 \<and> 1 \<le> dd
     \<and> daysSinceEpoch y + daysBefore (m - 1) + (if isLeap y \<and> 2 \<le> m - 1 then 1 else 0) + (dd - 1)
         = absDays t"
proof -
  obtain q a b c yd where dc:
    "yearDay (absDays t) = (400 * q + 100 * a + 4 * b + c + 1, yd)"
    "absDays t = 146097 * q + 36524 * a + 1461 * b + 365 * c + yd"
    "0 \<le> a" "a \<le> 3" "0 \<le> b" "b \<le> 24" "0 \<le> c" "c \<le> 3"
    "0 \<le> yd" "yd \<le> 364 \<or> (yd = 365 \<and> c = 3 \<and> (b \<noteq> 24 \<or> a = 3))"
    by (rule yearDay_decomp)
  have y: "y = 400 * q + 100 * a + 4 * b + c + 1" and md: "monthDay y yd = (m, dd)"
    using assms dc(1) unfolding date_def by auto
  have leap: "isLeap y = (c = 3 \<and> (b \<noteq> 24 \<or> a = 3))"
    unfolding y by (rule isLeap_decomp[OF dc(3-8)])
  have dse: "daysSinceEpoch y = 146097 * q + 36524 * a + 1461 * b + 365 * c"
    unfolding y by (rule daysSinceEpoch_decomp[OF dc(3-8)])
  have "yd \<le> 364 \<or> (yd = 365 \<and> isLeap y)" using dc(10) leap by blast
  from monthDay_inv[OF dc(9) this md] show ?thesis using dse dc(2) by simp
qed

lemma Date_endOfDay:
  assumes "0 \<le> ns" "ns < 1000000000"
  shows "Date (Year t) (Month t) (Day t) 23 59 59 ns l =
     \<lparr>unixSec = absDays t * 86400 + 86399 - 719162 * 86400
                 - dateZoneOffset l (absDays t * 86400 + 86399 - 719162 * 86400),
      nsec = ns, loc = l\<rparr>"
proof -
  obtain y m dd where d: "date t = (y, m, dd)" by (metis prod_cases3)
  then have ymd: "Year t = y" "Month t = m" "Day t = dd"
    by (simp_all add: Year_def Month_def Day_def)
  from date_inverse[OF d] have mr: "0 \<le> m - 1" "m - 1 < 12"
    and days: "daysSinceEpoch y + daysBefore (m - 1) + (if isLeap y \<and> 2 \<le> m - 1 then 1 else 0)
       + (dd - 1) = absDays t" by auto
  have m1: "(m - 1) div 12 = 0" "(m - 1) mod 12 = m - 1" using mr by simp_all
  have n1: "ns div 1000000000 = 0" "ns mod 1000000000 = ns" using assms by simp_all
  show ?thesis
    unfolding ymd Date_def Let_def m1 n1
    using days by simp
qed

section \<open>The request window\<close>

text \<open>
  The end of the window when no change of the clocks is near: if one offset is in effect in
  now's location from \<open>24h + |offset|\<close> before now until \<open>|offset|\<close> after it, the end is the
  last second of the calendar day before now's.
\<close>

lemma Add_minus_24h:
  assumes "0 \<le> nsec t" "nsec t < 1000000000"
  shows "Add t (- (24 * Hour)) = t\<lparr>unixSec := unixSec t - 86400\<rparr>"
  using assms by (simp add: Add_def Hour_def quot_def rem_def Let_def)

lemma absSeconds_endOfDay:
  assumes "absSeconds t = d * 86400 + 86399"
  shows "absDays t = d" "absClock t = 86399"
proof -
  have "(86400 * d + 86399) div 86400 = d"
    by (rule div_decomp) simp_all
  then show "absDays t = d" using assms by (simp add: absDays_def mult.commute)
  have "(86400 * d + 86399) mod 86400 = 86399"
    by (rule mod_decomp) simp_all
  then show "absClock t = 86399" using assms by (simp add: absClock_def mult.commute)
qed

lemma endDate_no_transition:
  assumes ns: "0 \<le> nsec now" "nsec now < 1000000000"
    and zone: "\<forall>v. unixSec now - 86400 - \<bar>off\<bar> \<le> v \<and> v \<le> unixSec now + \<bar>off\<bar>
                \<longrightarrow> loc now v = (off, start, end')"
    and cover: "start \<le> unixSec now - 86400 - \<bar>off\<bar>" "unixSec now + \<bar>off\<bar> < end'"
  shows "absSeconds (endDate now) = (absDays now - 1) * 86400 + 86399"
proof -
  define u where "u = unixSec now"
  define t1 where "t1 = now\<lparr>unixSec := u - 86400\<rparr>"
  have add: "Add now (- (24 * Hour)) = t1"
    using Add_minus_24h[OF ns] by (simp add: t1_def u_def)
  have look: "loc now v = (off, start, end')" if "u - 86400 - \<bar>off\<bar> \<le> v" "v \<le> u + \<bar>off\<bar>" for v
    using zone that unfolding u_def by blast
  have lt1: "loc t1 = loc now" by (simp add: t1_def)
  have "loc now u = (off, start, end')" by (rule look) linarith+
  then have zn: "zoneOffset now = off" by (simp add: zoneOffset_def u_def)
  have "loc now (u - 86400) = (off, start, end')" by (rule look) linarith+
  then have z1: "zoneOffset t1 = off" by (simp add: zoneOffset_def t1_def)
  have s1: "absSeconds t1 = absSeconds now - 86400"
    by (simp add: absSeconds_def zn z1) (simp add: t1_def u_def)
  have "(absSeconds now - 86400) div 86400 = absSeconds now div 86400 - 1"
    using div_add_self2[of 86400 "absSeconds now - 86400"] by simp
  then have d1: "absDays t1 = absDays now - 1" by (simp add: absDays_def s1)
  define x where "x = absDays t1 * 86400 + 86399 - 719162 * 86400"
  have b: "86400 * absDays t1 \<le> absSeconds t1" "absSeconds t1 < 86400 * absDays t1 + 86400"
    unfolding absDays_def by (rule div_bounds, simp)+
  have st: "absSeconds t1 = u - 86400 + off + 719162 * 86400"
    by (simp add: absSeconds_def z1) (simp add: t1_def)
  have xr: "u - 86400 + off \<le> x" "x \<le> u + off - 1"
    using b st unfolding x_def by linarith+
  have lx: "loc now x = (off, start, end')" by (rule look) (use xr in linarith)+
  have ur: "start \<le> x - off" "x - off < end'"
    using xr cover unfolding u_def by linarith+
  have dz: "dateZoneOffset (loc now) x = off"
    using ur by (simp add: dateZoneOffset_def lx Let_def)
  have e: "endDate now = \<lparr>unixSec = x - off, nsec = 59, loc = loc now\<rparr>"
    unfolding endDate_def Let_def add lt1
    using Date_endOfDay[of 59 t1 "loc now"] dz by (simp add: x_def)
  have "loc now (x - off) = (off, start, end')" by (rule look) (use xr in linarith)+
  then have ze: "zoneOffset (endDate now) = off" by (simp add: e zoneOffset_def)
  show ?thesis
    by (simp add: absSeconds_def ze) (simp add: e x_def d1)
qed

text \<open>
  Next to a change of the clocks the 24 hours that line 176 subtracts are not one calendar
  day: in Lisbon the end of the window falls on now's own day in the night after the clocks
  went back, and two days before now in the night after they went forward.
\<close>

lemma endDate_across_transition:
  "Format lisbonAutumnNight = ''2021-10-31 23:30:00''"
  "Format (endDate lisbonAutumnNight) = ''2021-10-31 23:59:59''"
  "absDays (endDate lisbonAutumnNight) = absDays lisbonAutumnNight"
  "Format lisbonSpringNight = ''2021-03-29 00:30:00''"
  "Format (endDate lisbonSpringNight) = ''2021-03-27 23:59:59''"
  "absDays (endDate lisbonSpringNight) = absDays lisbonSpringNight - 2"
  by code_simp+

text \<open>
  In a location with one offset the window depends on the wall clock only: the same reading
  of the clock under another offset gives the same pair of strings.
\<close>

lemma dateZoneOffset_FixedZone: "dateZoneOffset (FixedZone off) unix = off"
  by (simp add: dateZoneOffset_def FixedZone_def Let_def)

lemma absSeconds_zone:
  "absSeconds \<lparr>unixSec = k - off, nsec = n, loc = FixedZone off\<rparr>
     = absSeconds \<lparr>unixSec = k, nsec = n, loc = FixedZone 0\<rparr>"
  by (simp add: absSeconds_def zoneOffset_def FixedZone_def)

lemma date_zone:
  "date \<lparr>unixSec = k - off, nsec = n, loc = FixedZone off\<rparr>
     = date \<lparr>unixSec = k, nsec = n, loc = FixedZone 0\<rparr>"
  by (simp only: date_def absDays_def absSeconds_zone)

lemma Year_zone:
  "Year \<lparr>unixSec = k - off, nsec = n, loc = FixedZone off\<rparr>
     = Year \<lparr>unixSec = k, nsec = n, loc = FixedZone 0\<rparr>"
  by (simp only: Year_def date_zone)

lemma Month_zone:
  "Month \<lparr>unixSec = k - off, nsec = n, loc = FixedZone off\<rparr>
     = Month \<lparr>unixSec = k, nsec = n, loc = FixedZone 0\<rparr>"
  by (simp only: Month_def date_zone)

lemma Day_zone:
  "Day \<lparr>unixSec = k - off, nsec = n, loc = FixedZone off\<rparr>
     = Day \<lparr>unixSec = k, nsec = n, loc = FixedZone 0\<rparr>"
  by (simp only: Day_def date_zone)

lemma Format_zone:
  "Format \<lparr>unixSec = k - off, nsec = n, loc = FixedZone off\<rparr>
     = Format \<lparr>unixSec = k, nsec = n, loc = FixedZone 0\<rparr>"
  by (simp only: Format_def absClock_def absSeconds_zone Year_zone Month_zone Day_zone)

lemma Date_zone:
  "Date y m d h mi s ns (FixedZone off)
     = \<lparr>unixSec = unixSec (Date y m d h mi s ns (FixedZone 0)) - off,
        nsec = nsec (Date y m d h mi s ns (FixedZone 0)), loc = FixedZone off\<rparr>"
  by (simp add: Date_def Let_def dateZoneOffset_FixedZone)

lemma Add_zone:
  "Add \<lparr>unixSec = k - off, nsec = n, loc = FixedZone off\<rparr> d
     = \<lparr>unixSec = unixSec (Add \<lparr>unixSec = k, nsec = n, loc = FixedZone 0\<rparr> d) - off,
        nsec = nsec (Add \<lparr>unixSec = k, nsec = n, loc = FixedZone 0\<rparr> d), loc = FixedZone off\<rparr>"
  by (simp add: Add_def Let_def)

lemma Time_eta: "\<lparr>unixSec = unixSec t, nsec = nsec t, loc = loc t\<rparr> = t"
  by simp

lemma loc_Add: "loc (Add t d) = loc t"
  by (simp add: Add_def Let_def)

lemma stamp_zone:
  "Format (let t = Add \<lparr>unixSec = k - off, nsec = n, loc = FixedZone off\<rparr> d
           in Date (Year t) (Month t) (Day t) 23 59 59 ns (loc t))
   = Format (let t = Add \<lparr>unixSec = k, nsec = n, loc = FixedZone 0\<rparr> d
           in Date (Year t) (Month t) (Day t) 23 59 59 ns (loc t))"
proof -
  define u where "u = Add \<lparr>unixSec = k, nsec = n, loc = FixedZone 0\<rparr> d"
  have z: "loc u = FixedZone 0" unfolding u_def by (simp add: loc_Add)
  have a: "Add \<lparr>unixSec = k - off, nsec = n, loc = FixedZone off\<rparr> d
     = \<lparr>unixSec = unixSec u - off, nsec = nsec u, loc = FixedZone off\<rparr>"
    unfolding u_def by (rule Add_zone)
  have u0: "\<lparr>unixSec = unixSec u, nsec = nsec u, loc = FixedZone 0\<rparr> = u"
    using z Time_eta[of u] by simp
  define D where "D = Date (Year u) (Month u) (Day u) 23 59 59 ns (FixedZone 0)"
  have "loc D = FixedZone 0" unfolding D_def by (simp add: Date_def Let_def)
  then have D0: "\<lparr>unixSec = unixSec D, nsec = nsec D, loc = FixedZone 0\<rparr> = D"
    using Time_eta[of D] by simp
  have "Date (Year u) (Month u) (Day u) 23 59 59 ns (FixedZone off)
      = \<lparr>unixSec = unixSec D - off, nsec = nsec D, loc = FixedZone off\<rparr>"
    unfolding D_def by (rule Date_zone)
  then have "Format (Date (Year u) (Month u) (Day u) 23 59 59 ns (FixedZone off)) = Format D"
    by (simp only: Format_zone D0)
  then have "Format (Date (Year u) (Month u) (Day u) 23 59 59 ns (FixedZone off))
      = Format (Date (Year u) (Month u) (Day u) 23 59 59 ns (FixedZone 0))"
    unfolding D_def .
  then show ?thesis
    unfolding Let_def a Year_zone Month_zone Day_zone u0 u_def[symmetric]
    by (simp add: z)
qed

lemma stamp2_zone:
  "Format (let t = Add (Add \<lparr>unixSec = k - off, nsec = n, loc = FixedZone off\<rparr> d1) d2
           in Date (Year t) (Month t) (Day t) 23 59 59 ns (loc t))
   = Format (let t = Add (Add \<lparr>unixSec = k, nsec = n, loc = FixedZone 0\<rparr> d1) d2
           in Date (Year t) (Month t) (Day t) 23 59 59 ns (loc t))"
proof -
  define u where "u = Add \<lparr>unixSec = k, nsec = n, loc = FixedZone 0\<rparr> d1"
  have z: "loc u = FixedZone 0" unfolding u_def by (simp add: loc_Add)
  have u0: "\<lparr>unixSec = unixSec u, nsec = nsec u, loc = FixedZone 0\<rparr> = u"
    using z Time_eta[of u] by simp
  have a: "Add \<lparr>unixSec = k - off, nsec = n, loc = FixedZone off\<rparr> d1
     = \<lparr>unixSec = unixSec u - off, nsec = nsec u, loc = FixedZone off\<rparr>"
    unfolding u_def by (rule Add_zone)
  show ?thesis
    unfolding a u_def[symmetric]
    using stamp_zone[of "unixSec u" off "nsec u" d2 ns] by (simp only: u0)
qed

lemma requestWindow_zone:
  "requestWindow hi cs \<lparr>unixSec = k1 - off1, nsec = n1, loc = FixedZone off1\<rparr>
       \<lparr>unixSec = k2 - off2, nsec = n2, loc = FixedZone off2\<rparr>
     = requestWindow hi cs \<lparr>unixSec = k1, nsec = n1, loc = FixedZone 0\<rparr>
         \<lparr>unixSec = k2, nsec = n2, loc = FixedZone 0\<rparr>"
proof -
  have e: "Format (endDate \<lparr>unixSec = k2 - off2, nsec = n2, loc = FixedZone off2\<rparr>)
      = Format (endDate \<lparr>unixSec = k2, nsec = n2, loc = FixedZone 0\<rparr>)"
    using stamp_zone[of k2 off2 n2 "- (24 * Hour)" 59] by (simp add: endDate_def Let_def)
  show ?thesis
    using stamp_zone[of k1 off1 n1 "- (24 * Hour)" 0]
      stamp2_zone[of k1 off1 n1 "- hi" "- (24 * Hour)" 0]
    by (simp add: requestWindow_def Let_def e)
qed

lemma Date_example:
  "Date 2021 1 10 12 0 0 0 (FixedZone off)
     = \<lparr>unixSec = 1610280000 - off, nsec = 0, loc = FixedZone off\<rparr>"
proof -
  have "unixSec (Date 2021 1 10 12 0 0 0 (FixedZone 0)) = 1610280000"
    "nsec (Date 2021 1 10 12 0 0 0 (FixedZone 0)) = 0"
    by code_simp+
  then show ?thesis using Date_zone[of 2021 1 10 12 0 0 0 off] by simp
qed

lemma exampleNow_value: "exampleNow = \<lparr>unixSec = 1610280000, nsec = 0, loc = FixedZone 0\<rparr>"
  using Date_example[of 0] by (simp add: exampleNow_def UTC_def)

lemma lisbonSummerNoon_value:
  "lisbonSummerNoon = \<lparr>unixSec = 1626346800, nsec = 0, loc = Lisbon\<rparr>"
proof -
  have "unixSec lisbonSummerNoon = 1626346800" "nsec lisbonSummerNoon = 0"
    by code_simp+
  moreover have "loc lisbonSummerNoon = Lisbon"
    by (simp add: lisbonSummerNoon_def Date_def Let_def)
  ultimately show ?thesis using Time_eta[of lisbonSummerNoon] by simp
qed

section \<open>Requests\<close>

lemma responseHasSuccessCode_set: "responseHasSuccessCode code codes = (code \<in> set codes)"
  by (induction codes) auto

lemma reqURL_applyHeaders: "reqURL (applyHeaders env hs request) = reqURL request"
  by (induction hs arbitrary: request) auto

lemma makeRequest_sent:
  assumes "makeRequest env eredes url body token sent = (r, sent')"
  shows "sent' = sent \<or> (\<exists>request. sent' = sent @ [request] \<and> reqURL request = url)"
  using assms
  by (auto simp: makeRequest_def makeRequestBodyReader_def NewRequest_def Let_def
      reqURL_applyHeaders split: sum.splits if_splits)

lemma gatherUsages_error_keeps_acc:
  assumes "gatherUsages env eredes now1 now2 acc token sent = (Some err, acc', sent')"
  shows "acc' = acc"
  using assms
  by (auto simp: gatherUsages_def Let_def split: prod.splits sum.splits if_splits)

text \<open>
  What a successful \<open>makeRequest\<close> means: one request went out, the network answered it with
  a status code from \<open>SuccessStatusCodes\<close>, and the body of the answer is what is returned.
\<close>

lemma makeRequest_success:
  assumes "makeRequest env eredes url body token sent = (Inr b, sent')"
  shows "\<exists>request resp. sent' = sent @ [request] \<and> reqURL request = url
           \<and> clientDo env sent request = Inr resp
           \<and> StatusCode resp \<in> set (SuccessStatusCodes eredes) \<and> Body resp = Inr b"
  using assms
  by (auto simp: makeRequest_def makeRequestBodyReader_def NewRequest_def Let_def
      reqURL_applyHeaders responseHasSuccessCode_set split: sum.splits if_splits)

text \<open>
  Whatever the configuration, a request that \<open>gatherUsages\<close> sends goes to \<open>eredesUsage\<close>,
  and a successful \<open>Init\<close> leaves 200 as the only accepted status code.
\<close>

lemma gatherUsages_sent:
  assumes "gatherUsages env eredes now1 now2 acc token sent = (r, acc', sent')"
  shows "sent' = sent \<or> (\<exists>request. sent' = sent @ [request] \<and> reqURL request = eredesUsage)"
proof (cases "RunTestsOnly eredes")
  case True
  with assms show ?thesis by (simp add: gatherUsages_def Let_def split_beta)
next
  case False
  obtain start end' where w:
    "requestWindow (HistoryInterval eredes) (StartDate eredes) now1 now2 = (start, end')"
    by (cases "requestWindow (HistoryInterval eredes) (StartDate eredes) now1 now2")
  obtain res s where m:
    "makeRequest env eredes eredesUsage (usagesRequestBody eredes start end') token sent = (res, s)"
    by (cases "makeRequest env eredes eredesUsage (usagesRequestBody eredes start end') token sent")
  have "sent' = s"
    using assms False w m
    by (auto simp: gatherUsages_def Let_def split: sum.splits if_splits)
  with makeRequest_sent[OF m] show ?thesis by simp
qed

lemma Init_codes:
  assumes "Init env eredes = (None, eredes')"
  shows "SuccessStatusCodes eredes' = [200]"
  using assms by (auto simp: Init_def split: option.splits)

section \<open>The claims\<close>

subsection \<open>C1: the scenario of 10 January 2021\<close>

text \<open>
  Claim C1 says that for now = 2021-01-10 12:00:00, a history interval of 168h and no start
  date the window is start = 2021-01-01 23:59:59, end = 2021-01-08 23:59:59. The code
  computes other values. What holds, in every location with one offset \<open>off\<close> in which the
  clock reads 2021-01-10 12:00:00: the end is the last second of the day before now,
  2021-01-09 23:59:59, and the start is the last second of the day that lies 168h + 24h
  before now, 2021-01-02 23:59:59. This is the window the sample configuration describes
  (``24h = last 24h = yesterday 00:00 to 23:59'', the start being exclusive).
\<close>

theorem C1_window_scenario:
  "requestWindow (168 * Hour) [] (Date 2021 1 10 12 0 0 0 (FixedZone off))
       (Date 2021 1 10 12 0 0 0 (FixedZone off))
     = (''2021-01-02 23:59:59'', ''2021-01-09 23:59:59'')"
proof -
  have "requestWindow (168 * Hour) [] \<lparr>unixSec = 1610280000, nsec = 0, loc = FixedZone 0\<rparr>
          \<lparr>unixSec = 1610280000, nsec = 0, loc = FixedZone 0\<rparr>
     = (''2021-01-02 23:59:59'', ''2021-01-09 23:59:59'')"
    by code_simp
  then show ?thesis
    unfolding Date_example requestWindow_zone .
qed

text \<open>The values that claim C1 states are not the ones computed (here in UTC).\<close>

theorem C1_counterexample:
  "\<not> (snd (requestWindow (168 * Hour) [] (Date 2021 1 10 12 0 0 0 UTC) (Date 2021 1 10 12 0 0 0 UTC))
          = ''2021-01-08 23:59:59''
      \<and> fst (requestWindow (168 * Hour) [] (Date 2021 1 10 12 0 0 0 UTC) (Date 2021 1 10 12 0 0 0 UTC))
          = ''2021-01-01 23:59:59'')"
  by code_simp

subsection \<open>C2: the end of the window is yesterday\<close>

text \<open>
  Claim C2 says that the end of the window never falls on now's calendar day nor on the day
  before, and is always the end of a day at least two calendar days before now. The code
  takes the calendar day of the instant 24 hours before now (line 176) and sets the clock to
  23:59:59 in now's location (line 177). What holds: for every well-formed now
  (\<open>0 \<le> nsec < 10\<^sup>9\<close>) in whose location one offset \<open>off\<close> is in effect throughout the
  interval from \<open>24h + |off|\<close> before now until \<open>|off|\<close> after now (\<open>loc now\<close> answers
  \<open>(off, start, end')\<close> there, and \<open>[start, end')\<close> covers the interval), the end is the
  instant 23:59:59 of the calendar day immediately before now's day, and the \<open>end\<close> string
  of the window is that instant formatted: never now's own day, and one day back, not two.
  \<open>absDays\<close> numbers the calendar days of the location and \<open>absClock\<close> is the second within
  the day (86399 is 23:59:59). Nothing is stated for a now next to a change of the clocks.
\<close>

theorem C2_end_is_eve_of_now:
  assumes "0 \<le> nsec now" "nsec now < 1000000000"
    and "\<forall>v. unixSec now - 86400 - \<bar>off\<bar> \<le> v \<and> v \<le> unixSec now + \<bar>off\<bar>
                \<longrightarrow> loc now v = (off, start, end')"
    and "start \<le> unixSec now - 86400 - \<bar>off\<bar>" "unixSec now + \<bar>off\<bar> < end'"
  shows "absDays (endDate now) = absDays now - 1
       \<and> absClock (endDate now) = 86399
       \<and> snd (requestWindow historyInterval configuredStart now1 now) = Format (endDate now)"
  using absSeconds_endOfDay[OF endDate_no_transition[OF assms]]
  by (simp add: requestWindow_def Let_def)

text \<open>
  The theorem at noon of 10 January 2021 in UTC (offset 0, in effect for ever) and at noon
  of 15 July 2021 in Lisbon (offset 3600, in effect from 28 March to 31 October 2021).
\<close>

theorem C2_witness:
  "absDays (endDate exampleNow) = absDays exampleNow - 1
   \<and> absClock (endDate exampleNow) = 86399
   \<and> snd (requestWindow (168 * Hour) [] exampleNow exampleNow) = ''2021-01-09 23:59:59''
   \<and> absDays (endDate lisbonSummerNoon) = absDays lisbonSummerNoon - 1
   \<and> absClock (endDate lisbonSummerNoon) = 86399
   \<and> snd (requestWindow (168 * Hour) [] lisbonSummerNoon lisbonSummerNoon) = ''2021-07-14 23:59:59''"
proof -
  have h1: "0 \<le> nsec exampleNow" and h2: "nsec exampleNow < 1000000000"
    by (simp_all add: exampleNow_value)
  have h3: "\<forall>v. unixSec exampleNow - 86400 - \<bar>0\<bar> \<le> v \<and> v \<le> unixSec exampleNow + \<bar>0\<bar>
                \<longrightarrow> loc exampleNow v = (0, alpha, omega)"
    by (simp add: exampleNow_value FixedZone_def)
  have h4: "alpha \<le> unixSec exampleNow - 86400 - \<bar>0\<bar>" and h5: "unixSec exampleNow + \<bar>0\<bar> < omega"
    by (simp_all add: exampleNow_value alpha_def omega_def)
  have f: "Format (endDate exampleNow) = ''2021-01-09 23:59:59''"
    by code_simp
  have a: "absDays (endDate exampleNow) = absDays exampleNow - 1
     \<and> absClock (endDate exampleNow) = 86399
     \<and> snd (requestWindow (168 * Hour) [] exampleNow exampleNow) = ''2021-01-09 23:59:59''"
    using C2_end_is_eve_of_now[OF h1 h2 h3 h4 h5, of "168 * Hour" "[]" exampleNow] f by simp
  have k1: "0 \<le> nsec lisbonSummerNoon" and k2: "nsec lisbonSummerNoon < 1000000000"
    by (simp_all add: lisbonSummerNoon_value)
  have k3: "\<forall>v. unixSec lisbonSummerNoon - 86400 - \<bar>3600\<bar> \<le> v \<and> v \<le> unixSec lisbonSummerNoon + \<bar>3600\<bar>
                \<longrightarrow> loc lisbonSummerNoon v = (3600, 1616893200, 1635642000)"
    by (simp add: lisbonSummerNoon_value Lisbon_def)
  have k4: "1616893200 \<le> unixSec lisbonSummerNoon - 86400 - \<bar>3600\<bar>"
    and k5: "unixSec lisbonSummerNoon + \<bar>3600\<bar> < 1635642000"
    by (simp_all add: lisbonSummerNoon_value)
  have g: "Format (endDate lisbonSummerNoon) = ''2021-07-14 23:59:59''"
    by code_simp
  have b: "absDays (endDate lisbonSummerNoon) = absDays lisbonSummerNoon - 1
     \<and> absClock (endDate lisbonSummerNoon) = 86399
     \<and> snd (requestWindow (168 * Hour) [] lisbonSummerNoon lisbonSummerNoon) = ''2021-07-14 23:59:59''"
    using C2_end_is_eve_of_now[OF k1 k2 k3 k4 k5, of "168 * Hour" "[]" lisbonSummerNoon] g by simp
  from a b show ?thesis by blast
qed

text \<open>
  Claim C2 as stated fails at noon of 10 January 2021 in UTC, where the end of the window
  falls on the day before now, and at 23:30 of 31 October 2021 in Lisbon, where it falls on
  now's own day.
\<close>

theorem C2_counterexample:
  "\<not> (absDays (endDate exampleNow) \<noteq> absDays exampleNow
      \<and> absDays (endDate exampleNow) \<noteq> absDays exampleNow - 1
      \<and> absDays (endDate exampleNow) \<le> absDays exampleNow - 2)
   \<and> \<not> (absDays (endDate lisbonAutumnNight) \<noteq> absDays lisbonAutumnNight
      \<and> absDays (endDate lisbonAutumnNight) \<noteq> absDays lisbonAutumnNight - 1
      \<and> absDays (endDate lisbonAutumnNight) \<le> absDays lisbonAutumnNight - 2)"
  by code_simp

subsection \<open>C3: history intervals below 24h\<close>

text \<open>
  Claim C3 says that every history interval below 24h (zero included) gives the same window
  as 24h does. The branch for such intervals (lines 163 to 166) logs ``using 24h'' and the
  sample configuration says ``Minimum is 24h'', but the branch subtracts 24h only once where
  the branch for 24h and more subtracts the interval and another 24h. At 2021-01-10 12:00:00
  (in any location with one offset) the intervals 0 and 12h give the start
  2021-01-09 23:59:59, which is also the end, while 24h gives the start 2021-01-08 23:59:59.
\<close>

theorem C3_clamp_differs_from_24h:
  "requestWindow 0 [] (Date 2021 1 10 12 0 0 0 (FixedZone off))
       (Date 2021 1 10 12 0 0 0 (FixedZone off))
     = (''2021-01-09 23:59:59'', ''2021-01-09 23:59:59'')
   \<and> requestWindow (12 * Hour) [] (Date 2021 1 10 12 0 0 0 (FixedZone off))
       (Date 2021 1 10 12 0 0 0 (FixedZone off))
     = (''2021-01-09 23:59:59'', ''2021-01-09 23:59:59'')
   \<and> requestWindow (24 * Hour) [] (Date 2021 1 10 12 0 0 0 (FixedZone off))
       (Date 2021 1 10 12 0 0 0 (FixedZone off))
     = (''2021-01-08 23:59:59'', ''2021-01-09 23:59:59'')"
proof -
  have "requestWindow 0 [] \<lparr>unixSec = 1610280000, nsec = 0, loc = FixedZone 0\<rparr>
          \<lparr>unixSec = 1610280000, nsec = 0, loc = FixedZone 0\<rparr>
     = (''2021-01-09 23:59:59'', ''2021-01-09 23:59:59'')"
    by code_simp
  moreover have "requestWindow (12 * Hour) [] \<lparr>unixSec = 1610280000, nsec = 0, loc = FixedZone 0\<rparr>
          \<lparr>unixSec = 1610280000, nsec = 0, loc = FixedZone 0\<rparr>
     = (''2021-01-09 23:59:59'', ''2021-01-09 23:59:59'')"
    by code_simp
  moreover have "requestWindow (24 * Hour) [] \<lparr>unixSec = 1610280000, nsec = 0, loc = FixedZone 0\<rparr>
          \<lparr>unixSec = 1610280000, nsec = 0, loc = FixedZone 0\<rparr>
     = (''2021-01-08 23:59:59'', ''2021-01-09 23:59:59'')"
    by code_simp
  ultimately show ?thesis
    unfolding Date_example requestWindow_zone by blast
qed

subsection \<open>C4: the usage URL override\<close>

text \<open>
  Claim C4 says that a configured \<open>UsageURL\<close> is the address of the usage request. Lines 184
  to 188 compute \<open>usageURL\<close> from the configuration, but line 195 passes the built-in
  \<open>eredesUsage\<close> to \<open>makeRequest\<close>. With the override \<^verbatim>\<open>http://localhost:8080/usage\<close>
  configured, the one request that \<open>gatherUsages\<close> sends goes to the built-in address.
\<close>

theorem C4_usage_request_ignores_override:
  "UsageURL exampleConfig = ''http://localhost:8080/usage''
   \<and> map reqURL (snd (snd (gatherUsages
          (exampleEnv (Inr \<lparr>StatusCode = 200, Body = Inr []\<rparr>)
             (Inr \<lparr>StatusCode = 200, Body = Inr []\<rparr>) None (Inr []))
          exampleConfig exampleNow exampleNow emptyAcc ''TOKEN'' [])))
       = [''https://online.e-redes.pt/listeners/api.php/ms/reading/data-usage/sysgrid/get'']"
  by (simp add: gatherUsages_def makeRequest_def makeRequestBodyReader_def NewRequest_def
      exampleEnv_def exampleConfig_def Let_def reqURL_applyHeaders eredesUsage_def
      split: prod.splits)

subsection \<open>C5: the accepted status codes\<close>

text \<open>
  Claim C5 says that the set of accepted status codes is configurable, with default 200, and
  that after initialisation a response with a code of the configured set yields its body.
  The field \<open>SuccessStatusCodes\<close> is bound to the configuration key
  \<^verbatim>\<open>success_status_codes\<close> and \<open>makeRequest\<close> accepts exactly its members, but \<open>Init\<close>
  (line 109) overwrites the field with \<open>[200]\<close> whatever was configured. With 200 and 201
  configured, a response 201 is accepted before \<open>Init\<close> and rejected after it, with an error
  that carries the code 201, its text and the list \<open>[200]\<close>.
\<close>

theorem C5_Init_discards_configured_codes:
  "SuccessStatusCodes exampleConfig = [200, 201]
   \<and> fst (makeRequest
        (exampleEnv (Inr \<lparr>StatusCode = 201, Body = Inr ''ok''\<rparr>)
           (Inr \<lparr>StatusCode = 201, Body = Inr ''ok''\<rparr>) None (Inr []))
        exampleConfig eredesUsage ''{}'' ''TOKEN'' []) = Inr ''ok''
   \<and> Init (exampleEnv (Inr \<lparr>StatusCode = 201, Body = Inr ''ok''\<rparr>)
           (Inr \<lparr>StatusCode = 201, Body = Inr ''ok''\<rparr>) None (Inr [])) exampleConfig
       = (None, exampleConfig\<lparr>SuccessStatusCodes := [200]\<rparr>)
   \<and> fst (makeRequest
        (exampleEnv (Inr \<lparr>StatusCode = 201, Body = Inr ''ok''\<rparr>)
           (Inr \<lparr>StatusCode = 201, Body = Inr ''ok''\<rparr>) None (Inr []))
        (snd (Init (exampleEnv (Inr \<lparr>StatusCode = 201, Body = Inr ''ok''\<rparr>)
           (Inr \<lparr>StatusCode = 201, Body = Inr ''ok''\<rparr>) None (Inr [])) exampleConfig))
        eredesUsage ''{}'' ''TOKEN'' []) = Inl (StatusError 201 ''Created'' [200])"
  by (simp add: makeRequest_def makeRequestBodyReader_def NewRequest_def Init_def
      exampleEnv_def exampleConfig_def Let_def)

subsection \<open>C6: a configured start date\<close>

text \<open>
  Claim C6: for every non-empty start date, every clock reading and every history interval,
  the start of the window is the configured string itself, so that another history interval
  gives the same start.
\<close>

theorem C6_startDate_verbatim:
  assumes "configuredStart \<noteq> []"
  shows "fst (requestWindow historyInterval configuredStart now1 now2) = configuredStart
       \<and> fst (requestWindow historyInterval' configuredStart now1 now2)
           = fst (requestWindow historyInterval configuredStart now1 now2)"
  using assms by (simp add: requestWindow_def Let_def)

theorem C6_witness:
  "fst (requestWindow (168 * Hour) ''2020-12-31 23:59:59'' (Date 2021 1 10 12 0 0 0 UTC)
          (Date 2021 1 10 12 0 0 0 UTC)) = ''2020-12-31 23:59:59''
   \<and> fst (requestWindow 0 ''2020-12-31 23:59:59'' (Date 2021 1 10 12 0 0 0 UTC)
          (Date 2021 1 10 12 0 0 0 UTC))
       = fst (requestWindow (168 * Hour) ''2020-12-31 23:59:59'' (Date 2021 1 10 12 0 0 0 UTC)
          (Date 2021 1 10 12 0 0 0 UTC))"
  using C6_startDate_verbatim[of "''2020-12-31 23:59:59''" "168 * Hour" "Date 2021 1 10 12 0 0 0 UTC"
      "Date 2021 1 10 12 0 0 0 UTC" 0]
  by simp

subsection \<open>C7: the token of the sign-in response\<close>

text \<open>
  Claim C7: when the sign-in request succeeds (outside the tests-only mode, in which no
  request is made), \<open>signIn\<close> returns without error the string found at the path
  \<^verbatim>\<open>Body.Result.token\<close> of the response body, and the empty string when the path is absent.
\<close>

theorem C7_signIn_returns_token:
  assumes "\<not> RunTestsOnly eredes"
    and "makeRequest env eredes (if SignInURL eredes = [] then eredesSignIn else SignInURL eredes)
           (signInRequestBody eredes) [] sent = (Inr response, sent')"
  shows "signIn env eredes sent =
     (Inr (case gjsonGet env response ''Body.Result.token'' of None \<Rightarrow> [] | Some token \<Rightarrow> token),
      sent')"
  using assms by (simp add: signIn_def Let_def ResultString_def)

theorem C7_witness:
  "fst (signIn (exampleEnv okResponse okResponse (Some ''abc'') (Inr [])) exampleConfig [])
     = Inr ''abc''
   \<and> fst (signIn (exampleEnv okResponse okResponse None (Inr [])) exampleConfig []) = Inr []"
proof -
  have np: "\<not> RunTestsOnly exampleConfig" by (simp add: exampleConfig_def)
  have m: "\<exists>s. makeRequest (exampleEnv okResponse okResponse tok (Inr [])) exampleConfig
          (if SignInURL exampleConfig = [] then eredesSignIn else SignInURL exampleConfig)
          (signInRequestBody exampleConfig) [] [] = (Inr ''response body'', s)" for tok
    by (simp add: makeRequest_def makeRequestBodyReader_def NewRequest_def Let_def
        exampleEnv_def exampleConfig_def okResponse_def)
  from m[of "Some ''abc''"] obtain s1 where
    "makeRequest (exampleEnv okResponse okResponse (Some ''abc'') (Inr [])) exampleConfig
          (if SignInURL exampleConfig = [] then eredesSignIn else SignInURL exampleConfig)
          (signInRequestBody exampleConfig) [] [] = (Inr ''response body'', s1)" by blast
  from C7_signIn_returns_token[OF np this]
  have a: "fst (signIn (exampleEnv okResponse okResponse (Some ''abc'') (Inr [])) exampleConfig [])
     = Inr ''abc''" by (simp add: exampleEnv_def)
  from m[of None] obtain s2 where
    "makeRequest (exampleEnv okResponse okResponse None (Inr [])) exampleConfig
          (if SignInURL exampleConfig = [] then eredesSignIn else SignInURL exampleConfig)
          (signInRequestBody exampleConfig) [] [] = (Inr ''response body'', s2)" by blast
  from C7_signIn_returns_token[OF np this]
  have b: "fst (signIn (exampleEnv okResponse okResponse None (Inr [])) exampleConfig []) = Inr []"
    by (simp add: exampleEnv_def)
  from a b show ?thesis by simp
qed

subsection \<open>C8: errors stay inside the cycle\<close>

text \<open>
  Claim C8: \<open>Gather\<close> returns nil whatever happens. When the sign-in fails, when the usage
  request fails, and when the parser fails, the accumulator afterwards is the one before with
  one more error (wrapped by \<open>SignInError\<close> or \<open>GatherError\<close>) and nothing else: \<open>AddError\<close>
  leaves the metrics \<open>added\<close> as they were, so the cycle emits none.
\<close>

theorem C8_Gather_never_fails:
  "fst (Gather env eredes now1 now2 acc sent) = None
   \<and> (signIn env eredes sent = (Inl err, sent1)
        \<longrightarrow> Gather env eredes now1 now2 acc sent = (None, AddError acc (SignInError err), sent1))
   \<and> (signIn env eredes sent = (Inr token, sent1) \<and> token \<noteq> [] \<and> \<not> RunTestsOnly eredes
        \<and> makeRequest env eredes eredesUsage
             (usagesRequestBody eredes
                (fst (requestWindow (HistoryInterval eredes) (StartDate eredes) now1 now2))
                (snd (requestWindow (HistoryInterval eredes) (StartDate eredes) now1 now2)))
             token sent1 = (Inl err, sent2)
        \<longrightarrow> Gather env eredes now1 now2 acc sent = (None, AddError acc (GatherError err), sent2))
   \<and> (signIn env eredes sent = (Inr token, sent1) \<and> token \<noteq> [] \<and> \<not> RunTestsOnly eredes
        \<and> makeRequest env eredes eredesUsage
             (usagesRequestBody eredes
                (fst (requestWindow (HistoryInterval eredes) (StartDate eredes) now1 now2))
                (snd (requestWindow (HistoryInterval eredes) (StartDate eredes) now1 now2)))
             token sent1 = (Inr response, sent2)
        \<and> parserParse env response = Inl err
        \<longrightarrow> Gather env eredes now1 now2 acc sent = (None, AddError acc (GatherError err), sent2))"
proof (intro conjI impI)
  show "fst (Gather env eredes now1 now2 acc sent) = None"
    by (simp add: Gather_def split: prod.splits sum.splits option.splits)
next
  assume "signIn env eredes sent = (Inl err, sent1)"
  then show "Gather env eredes now1 now2 acc sent = (None, AddError acc (SignInError err), sent1)"
    by (simp add: Gather_def)
next
  assume a: "signIn env eredes sent = (Inr token, sent1) \<and> token \<noteq> [] \<and> \<not> RunTestsOnly eredes
        \<and> makeRequest env eredes eredesUsage
             (usagesRequestBody eredes
                (fst (requestWindow (HistoryInterval eredes) (StartDate eredes) now1 now2))
                (snd (requestWindow (HistoryInterval eredes) (StartDate eredes) now1 now2)))
             token sent1 = (Inl err, sent2)"
  then have "gatherUsages env eredes now1 now2 acc token sent1 = (Some err, acc, sent2)"
    by (simp add: gatherUsages_def Let_def split_beta)
  with a show "Gather env eredes now1 now2 acc sent = (None, AddError acc (GatherError err), sent2)"
    by (simp add: Gather_def)
next
  assume a: "signIn env eredes sent = (Inr token, sent1) \<and> token \<noteq> [] \<and> \<not> RunTestsOnly eredes
        \<and> makeRequest env eredes eredesUsage
             (usagesRequestBody eredes
                (fst (requestWindow (HistoryInterval eredes) (StartDate eredes) now1 now2))
                (snd (requestWindow (HistoryInterval eredes) (StartDate eredes) now1 now2)))
             token sent1 = (Inr response, sent2)
        \<and> parserParse env response = Inl err"
  then have "gatherUsages env eredes now1 now2 acc token sent1 = (Some err, acc, sent2)"
    by (simp add: gatherUsages_def Let_def split_beta)
  with a show "Gather env eredes now1 now2 acc sent = (None, AddError acc (GatherError err), sent2)"
    by (simp add: Gather_def)
qed

theorem C8_witness:
  "Gather (exampleEnv (Inl (LibError ''timeout'')) okResponse None (Inr [])) exampleConfig
        exampleNow exampleNow emptyAcc []
     = (None, \<lparr>added = [], errors = [SignInError (LibError ''timeout'')]\<rparr>,
        snd (signIn (exampleEnv (Inl (LibError ''timeout'')) okResponse None (Inr []))
               exampleConfig []))
   \<and> fst (snd (Gather (exampleEnv okResponse (Inr \<lparr>StatusCode = 500, Body = Inr []\<rparr>)
                  (Some ''abc'') (Inr [])) exampleConfig exampleNow exampleNow emptyAcc []))
     = \<lparr>added = [], errors = [GatherError (StatusError 500 [] [200, 201])]\<rparr>
   \<and> fst (snd (Gather (exampleEnv okResponse okResponse (Some ''abc'')
                  (Inl (LibError ''invalid character''))) exampleConfig exampleNow exampleNow
                  emptyAcc []))
     = \<lparr>added = [], errors = [GatherError (LibError ''invalid character'')]\<rparr>"
proof -
  let ?envA = "exampleEnv (Inl (LibError ''timeout'')) okResponse None (Inr [])"
  let ?envB = "exampleEnv okResponse (Inr \<lparr>StatusCode = 500, Body = Inr []\<rparr>) (Some ''abc'') (Inr [])"
  let ?envC = "exampleEnv okResponse okResponse (Some ''abc'') (Inl (LibError ''invalid character''))"
  let ?body = "usagesRequestBody exampleConfig
        (fst (requestWindow (HistoryInterval exampleConfig) (StartDate exampleConfig) exampleNow exampleNow))
        (snd (requestWindow (HistoryInterval exampleConfig) (StartDate exampleConfig) exampleNow exampleNow))"
  have np: "\<not> RunTestsOnly exampleConfig" by (simp add: exampleConfig_def)
  have "fst (signIn ?envA exampleConfig []) = Inl (LibError ''timeout'')"
    by (simp add: signIn_def makeRequest_def makeRequestBodyReader_def NewRequest_def Let_def
        exampleEnv_def exampleConfig_def)
  then have sA: "signIn ?envA exampleConfig [] = (Inl (LibError ''timeout''), snd (signIn ?envA exampleConfig []))"
    by (metis prod.collapse)
  have a: "Gather ?envA exampleConfig exampleNow exampleNow emptyAcc []
     = (None, \<lparr>added = [], errors = [SignInError (LibError ''timeout'')]\<rparr>,
        snd (signIn ?envA exampleConfig []))"
    using C8_Gather_never_fails[of ?envA exampleConfig exampleNow exampleNow emptyAcc "[]"
        "LibError ''timeout''" "snd (signIn ?envA exampleConfig [])"] sA
    by (simp add: AddError_def emptyAcc_def)
  have fB: "fst (signIn ?envB exampleConfig []) = Inr ''abc''"
    by (simp add: signIn_def makeRequest_def makeRequestBodyReader_def NewRequest_def Let_def
        exampleEnv_def exampleConfig_def okResponse_def ResultString_def)
  then have sB: "signIn ?envB exampleConfig [] = (Inr ''abc'', snd (signIn ?envB exampleConfig []))"
    by (metis prod.collapse)
  have "fst (makeRequest ?envB exampleConfig eredesUsage ?body ''abc''
               (snd (signIn ?envB exampleConfig [])))
          = Inl (StatusError 500 [] [200, 201])"
    by (simp add: signIn_def makeRequest_def makeRequestBodyReader_def NewRequest_def Let_def
        exampleEnv_def exampleConfig_def okResponse_def)
  then obtain sB2 where mB: "makeRequest ?envB exampleConfig eredesUsage ?body ''abc''
               (snd (signIn ?envB exampleConfig [])) = (Inl (StatusError 500 [] [200, 201]), sB2)"
    by (metis prod.collapse)
  have tB: "''abc'' \<noteq> []" by simp
  have "Gather ?envB exampleConfig exampleNow exampleNow emptyAcc []
     = (None, AddError emptyAcc (GatherError (StatusError 500 [] [200, 201])), sB2)"
    using C8_Gather_never_fails[where env = ?envB and eredes = exampleConfig
        and ?now1.0 = exampleNow and ?now2.0 = exampleNow and acc = emptyAcc and sent = "[]"
        and token = "''abc''" and ?sent1.0 = "snd (signIn ?envB exampleConfig [])"
        and err = "StatusError 500 [] [200, 201]" and ?sent2.0 = sB2] sB mB tB np
    by blast
  then have b: "fst (snd (Gather ?envB exampleConfig exampleNow exampleNow emptyAcc []))
     = \<lparr>added = [], errors = [GatherError (StatusError 500 [] [200, 201])]\<rparr>"
    by (simp add: AddError_def emptyAcc_def)
  have fC: "fst (signIn ?envC exampleConfig []) = Inr ''abc''"
    by (simp add: signIn_def makeRequest_def makeRequestBodyReader_def NewRequest_def Let_def
        exampleEnv_def exampleConfig_def okResponse_def ResultString_def)
  then have sC: "signIn ?envC exampleConfig [] = (Inr ''abc'', snd (signIn ?envC exampleConfig []))"
    by (metis prod.collapse)
  have "fst (makeRequest ?envC exampleConfig eredesUsage ?body ''abc''
               (snd (signIn ?envC exampleConfig [])))
          = Inr ''response body''"
    by (simp add: signIn_def makeRequest_def makeRequestBodyReader_def NewRequest_def Let_def
        exampleEnv_def exampleConfig_def okResponse_def)
  then obtain sC2 where mC: "makeRequest ?envC exampleConfig eredesUsage ?body ''abc''
               (snd (signIn ?envC exampleConfig [])) = (Inr ''response body'', sC2)"
    by (metis prod.collapse)
  have pC: "parserParse ?envC ''response body'' = Inl (LibError ''invalid character'')"
    by (simp add: exampleEnv_def)
  have "Gather ?envC exampleConfig exampleNow exampleNow emptyAcc []
     = (None, AddError emptyAcc (GatherError (LibError ''invalid character'')), sC2)"
    using C8_Gather_never_fails[where env = ?envC and eredes = exampleConfig
        and ?now1.0 = exampleNow and ?now2.0 = exampleNow and acc = emptyAcc and sent = "[]"
        and token = "''abc''" and ?sent1.0 = "snd (signIn ?envC exampleConfig [])"
        and err = "LibError ''invalid character''" and ?sent2.0 = sC2
        and response = "''response body''"] sC mC tB np pC
    by blast
  then have c: "fst (snd (Gather ?envC exampleConfig exampleNow exampleNow emptyAcc []))
     = \<lparr>added = [], errors = [GatherError (LibError ''invalid character'')]\<rparr>"
    by (simp add: AddError_def emptyAcc_def)
  from a b c show ?thesis by blast
qed

subsection \<open>C9: the tests-only mode\<close>

text \<open>
  Claim C9: with \<open>RunTestsOnly\<close> set, \<open>signIn\<close> returns the fixed token \<^verbatim>\<open>TOKEN1234567890\<close> and
  sends nothing, \<open>gatherUsages\<close> sends nothing and adds nothing, and the whole cycle leaves
  both the list of requests sent and the accumulator as they were.
\<close>

theorem C9_tests_only:
  assumes "RunTestsOnly eredes"
  shows "signIn env eredes sent = (Inr ''TOKEN1234567890'', sent)
       \<and> gatherUsages env eredes now1 now2 acc token sent = (None, acc, sent)
       \<and> Gather env eredes now1 now2 acc sent = (None, acc, sent)"
  using assms by (simp add: signIn_def gatherUsages_def Gather_def Let_def split: prod.splits)

theorem C9_witness:
  "RunTestsOnly (exampleConfig\<lparr>RunTestsOnly := True\<rparr>)
   \<and> signIn (exampleEnv okResponse okResponse None (Inr [])) (exampleConfig\<lparr>RunTestsOnly := True\<rparr>) []
       = (Inr ''TOKEN1234567890'', [])
   \<and> gatherUsages (exampleEnv okResponse okResponse None (Inr []))
        (exampleConfig\<lparr>RunTestsOnly := True\<rparr>) exampleNow exampleNow emptyAcc ''TOKEN1234567890'' []
       = (None, emptyAcc, [])
   \<and> Gather (exampleEnv okResponse okResponse None (Inr []))
        (exampleConfig\<lparr>RunTestsOnly := True\<rparr>) exampleNow exampleNow emptyAcc []
       = (None, emptyAcc, [])"
proof -
  have h: "RunTestsOnly (exampleConfig\<lparr>RunTestsOnly := True\<rparr>)" by simp
  from C9_tests_only[OF h] h show ?thesis by blast
qed

subsection \<open>C10: an empty token\<close>

text \<open>
  Claim C10: when \<open>signIn\<close> succeeds with the empty string as token, \<open>Gather\<close> returns nil, the
  accumulator is unchanged (no metric, no error) and no request is sent beyond those of the
  sign-in.
\<close>

theorem C10_empty_token_is_silent:
  assumes "signIn env eredes sent = (Inr [], sent1)"
  shows "Gather env eredes now1 now2 acc sent = (None, acc, sent1)"
  using assms by (simp add: Gather_def)

theorem C10_witness:
  "fst (signIn (exampleEnv okResponse okResponse None (Inr [])) exampleConfig []) = Inr []
   \<and> Gather (exampleEnv okResponse okResponse None (Inr [])) exampleConfig exampleNow exampleNow
        emptyAcc []
       = (None, emptyAcc, snd (signIn (exampleEnv okResponse okResponse None (Inr [])) exampleConfig []))
   \<and> map reqURL (snd (snd (Gather (exampleEnv okResponse okResponse None (Inr [])) exampleConfig
        exampleNow exampleNow emptyAcc [])))
       = [''https://online.e-redes.pt/listeners/api.php/ms/auth/auth/signin'']"
proof -
  let ?env = "exampleEnv okResponse okResponse None (Inr [])"
  have f: "fst (signIn ?env exampleConfig []) = Inr []"
    by (simp add: signIn_def makeRequest_def makeRequestBodyReader_def NewRequest_def Let_def
        exampleEnv_def exampleConfig_def okResponse_def ResultString_def)
  then have s: "signIn ?env exampleConfig [] = (Inr [], snd (signIn ?env exampleConfig []))"
    by (metis prod.collapse)
  have u: "map reqURL (snd (signIn ?env exampleConfig []))
       = [''https://online.e-redes.pt/listeners/api.php/ms/auth/auth/signin'']"
    by (simp add: signIn_def makeRequest_def makeRequestBodyReader_def NewRequest_def Let_def
        exampleEnv_def exampleConfig_def okResponse_def reqURL_applyHeaders eredesSignIn_def)
  from C10_empty_token_is_silent[OF s, of exampleNow exampleNow emptyAcc] f u
  show ?thesis by simp
qed

end
